theory Spec2Isabelle
  imports Complex_Main "HOL-Library.Monad_Syntax" "HOL-Library.Product_Lexorder"
begin

section \<open>Data model of \<^verbatim>\<open>Selection.cpp\<close>\<close>

text \<open>
  The selection holds non-owning pointers to the list of renderable volumes and to the
  model. The embedding keeps the pointee inside the state: \<open>m_volumes = None\<close> is the
  null pointer, \<open>Some vs\<close> a pointer to the list \<open>vs\<close>, and a write through the pointer
  replaces \<open>vs\<close>. Every operation returns \<open>'a option\<close>: \<open>None\<close> stands for an execution
  that returns no state (an access out of the range of a \<^verbatim>\<open>std::vector\<close>, a null
  dereference, or a failed \<^verbatim>\<open>assert\<close> in a build without \<^verbatim>\<open>NDEBUG\<close>).

  Doubles are modelled by \<open>real\<close>; volume indices and sizes (\<^verbatim>\<open>unsigned int\<close>) by
  \<open>nat\<close>, object, instance and part indices (\<^verbatim>\<open>int\<close>) by \<open>int\<close>, and the conversions
  between the two are written out (\<open>u32\<close>, \<open>s32\<close>).
\<close>

type_synonym Vec3d = "real \<times> real \<times> real"

datatype Axis = X | Y | Z

fun vget :: "Vec3d \<Rightarrow> Axis \<Rightarrow> real" where
  "vget (x, y, z) X = x"
| "vget (x, y, z) Y = y"
| "vget (x, y, z) Z = z"

fun vset :: "Vec3d \<Rightarrow> Axis \<Rightarrow> real \<Rightarrow> Vec3d" where
  "vset (x, y, z) X r = (r, y, z)"
| "vset (x, y, z) Y r = (x, r, z)"
| "vset (x, y, z) Z r = (x, y, r)"

definition vadd :: "Vec3d \<Rightarrow> Vec3d \<Rightarrow> Vec3d" where
  "vadd a b = (vget a X + vget b X, vget a Y + vget b Y, vget a Z + vget b Z)"

definition vsub :: "Vec3d \<Rightarrow> Vec3d \<Rightarrow> Vec3d" where
  "vsub a b = (vget a X - vget b X, vget a Y - vget b Y, vget a Z - vget b Z)"

definition vzero :: Vec3d where
  "vzero = (0, 0, 0)"

definition vones :: Vec3d where
  "vones = (1, 1, 1)"

text \<open>Conversion of an \<^verbatim>\<open>int\<close> to \<^verbatim>\<open>unsigned int\<close> and back (32 bits).\<close>

definition u32 :: "int \<Rightarrow> nat" where
  "u32 x = nat (x mod 2 ^ 32)"

definition s32 :: "nat \<Rightarrow> int" where
  "s32 n = (if n mod 2 ^ 32 < 2 ^ 31 then int (n mod 2 ^ 32) else int (n mod 2 ^ 32) - 2 ^ 32)"

text \<open>A \<^verbatim>\<open>size_t\<close> converted to \<^verbatim>\<open>unsigned int\<close>, as in
  \<^verbatim>\<open>(unsigned int)m_volumes->size()\<close>.\<close>

definition usize :: "nat \<Rightarrow> nat" where
  "usize n = n mod 2 ^ 32"

definition umul :: "nat \<Rightarrow> nat \<Rightarrow> nat" where
  "umul a b = (a * b) mod 2 ^ 32"

definition uadd :: "nat \<Rightarrow> nat \<Rightarrow> nat" where
  "uadd a b = (a + b) mod 2 ^ 32"

text \<open>
  Modelled from the spec: \<^verbatim>\<open>GLVolume\<close> is declared outside this file (the volume-list
  collaborator). Section 6 of the specification lists what is read and written per
  volume: the object/instance/part identity, the \<open>selected\<close> and \<open>disabled\<close> flags, the
  modifier and wipe-tower flags, and plain get/set pairs for the offset, rotation, scale
  and mirror of the part and of the instance.
\<close>

record GLVolume =
  object_idx :: int
  volume_idx :: int
  instance_idx :: int
  selected :: bool
  disabled :: bool
  is_modifier :: bool
  is_wipe_tower :: bool
  volume_offset :: Vec3d
  volume_rotation :: Vec3d
  volume_scaling_factor :: Vec3d
  volume_mirror :: Vec3d
  instance_offset :: Vec3d
  instance_rotation :: Vec3d
  instance_scaling_factor :: Vec3d
  instance_mirror :: Vec3d

text \<open>
  Modelled from the spec: of the model only the sizes \<^verbatim>\<open>objects.size()\<close>,
  \<^verbatim>\<open>volumes.size()\<close> and \<^verbatim>\<open>instances.size()\<close> are read (Section 6: object count,
  per-object part count and instance count).
\<close>

record ModelObject =
  volumes_size :: nat
  instances_size :: nat

datatype EMode = Volume | Instance

datatype EType = Invalid | Empty | WipeTower | SingleModifier | MultipleModifier
  | SingleVolume | MultipleVolume | SingleFullObject | MultipleFullObject
  | SingleFullInstance | MultipleFullInstance | Mixed

record Transformation =
  t_offset :: Vec3d
  t_rotation :: Vec3d
  t_scaling_factor :: Vec3d
  t_mirror :: Vec3d

definition get_volume_transformation :: "GLVolume \<Rightarrow> Transformation" where
  "get_volume_transformation v =
     \<lparr>t_offset = volume_offset v, t_rotation = volume_rotation v,
      t_scaling_factor = volume_scaling_factor v, t_mirror = volume_mirror v\<rparr>"

definition get_instance_transformation :: "GLVolume \<Rightarrow> Transformation" where
  "get_instance_transformation v =
     \<lparr>t_offset = instance_offset v, t_rotation = instance_rotation v,
      t_scaling_factor = instance_scaling_factor v, t_mirror = instance_mirror v\<rparr>"

text \<open>\<^verbatim>\<open>Selection::VolumeCache::TransformCache\<close>; \<open>'m\<close> is \<^verbatim>\<open>Transform3d\<close>.\<close>

record 'm TransformCache =
  tc_position :: Vec3d
  tc_rotation :: Vec3d
  tc_scaling_factor :: Vec3d
  tc_mirror :: Vec3d
  tc_rotation_matrix :: 'm
  tc_scale_matrix :: 'm
  tc_mirror_matrix :: 'm
  tc_full_matrix :: 'm

record 'm VolumeCache =
  vc_volume :: "'m TransformCache"
  vc_instance :: "'m TransformCache"

text \<open>
  The build configuration and the geometry library. \<^verbatim>\<open>Geometry::assemble_transform\<close>,
  \<^verbatim>\<open>Geometry::extract_euler_angles\<close>, \<^verbatim>\<open>Geometry::Transformation::get_matrix\<close>, the
  Eigen operations on \<^verbatim>\<open>Transform3d\<close>, \<^verbatim>\<open>BoundingBoxf3\<close> (type \<open>'b\<close>) and the convex
  hull of a volume are not part of this file; they are parameters of the operations that
  use them.
\<close>

record ('m, 'b) Env =
  NDEBUG :: bool
  DISABLE_INSTANCES_SYNCH :: bool
  isApprox :: "Vec3d \<Rightarrow> Vec3d \<Rightarrow> bool"
  is_approx :: "real \<Rightarrow> real \<Rightarrow> bool"
  identity :: 'm
  assemble_transform :: "Vec3d \<Rightarrow> Vec3d \<Rightarrow> Vec3d \<Rightarrow> Vec3d \<Rightarrow> 'm"
  extract_euler_angles :: "'m \<Rightarrow> Vec3d"
  get_matrix :: "Transformation \<Rightarrow> 'm"
  mat_mul :: "'m \<Rightarrow> 'm \<Rightarrow> 'm"
  mat_inverse :: "'m \<Rightarrow> 'm"
  mat_vec :: "'m \<Rightarrow> Vec3d \<Rightarrow> Vec3d"
  mat_coeff :: "'m \<Rightarrow> nat \<Rightarrow> nat \<Rightarrow> real"
  col_norm :: "'m \<Rightarrow> nat \<Rightarrow> real"
  rotate_angle_axis :: "real \<Rightarrow> Vec3d \<Rightarrow> 'm"
  angle_axis_of_diff :: "Vec3d \<Rightarrow> Vec3d \<Rightarrow> real \<times> Vec3d"
  transformed_convex_hull_bounding_box :: "GLVolume \<Rightarrow> 'b"
  bb_empty :: 'b
  bb_merge :: "'b \<Rightarrow> 'b \<Rightarrow> 'b"
  bb_center :: "'b \<Rightarrow> Vec3d"
  bb_min_z :: "'b \<Rightarrow> real"

text \<open>
  The state of a \<^verbatim>\<open>Selection\<close>. \<open>m_list\<close> is the \<^verbatim>\<open>std::set<unsigned int>\<close> of
  selected indices, kept as an ascending list without duplicates; \<open>cache_content\<close> is the
  \<^verbatim>\<open>std::map<int, std::set<int>>\<close> from object index to instance indices, kept as an
  association list ascending in the key; \<open>cache_volumes_data\<close> is the
  \<^verbatim>\<open>std::map<unsigned int, VolumeCache>\<close> of the drag-start snapshot.
  \<open>sidebar_cache_resets\<close> counts the calls of the external
  \<^verbatim>\<open>wxGetApp().obj_manipul()->reset_cache()\<close>.
\<close>

record ('m, 'b) Selection =
  m_volumes :: "GLVolume list option"
  m_model :: "ModelObject list option"
  m_mode :: EMode
  m_type :: EType
  m_valid :: bool
  m_list :: "nat list"
  cache_volumes_data :: "nat \<rightharpoonup> 'm VolumeCache"
  cache_content :: "(int \<times> int list) list"
  cache_dragging_center :: Vec3d
  m_bounding_box :: 'b
  m_bounding_box_dirty :: bool
  sidebar_cache_resets :: nat

subsection \<open>Containers\<close>

text \<open>\<^verbatim>\<open>std::set::insert\<close> and \<^verbatim>\<open>std::set::erase\<close> on an ascending list.\<close>

definition set_insert :: "'a::linorder \<Rightarrow> 'a list \<Rightarrow> 'a list" where
  "set_insert x xs = (if x \<in> set xs then xs else insort x xs)"

definition set_erase :: "'a \<Rightarrow> 'a list \<Rightarrow> 'a list" where
  "set_erase x xs = removeAll x xs"

text \<open>\<^verbatim>\<open>v[i]\<close> on a \<^verbatim>\<open>std::vector\<close>: no result out of range.\<close>

definition vector_at :: "'a list \<Rightarrow> nat \<Rightarrow> 'a option" where
  "vector_at xs i = (if i < length xs then Some (xs ! i) else None)"

text \<open>\<^verbatim>\<open>m_model->objects[idx]\<close> with an \<^verbatim>\<open>int\<close> index (a negative index converts to a
  huge \<^verbatim>\<open>size_t\<close>).\<close>

definition objects_at :: "ModelObject list \<Rightarrow> int \<Rightarrow> ModelObject option" where
  "objects_at os k = (if 0 \<le> k \<and> nat k < length os then Some (os ! nat k) else None)"

text \<open>Insertion of \<open>inst\<close> into the instance set of \<open>obj\<close> in \<^verbatim>\<open>m_cache.content\<close>.\<close>

fun content_insert :: "int \<Rightarrow> int \<Rightarrow> (int \<times> int list) list \<Rightarrow> (int \<times> int list) list" where
  "content_insert obj inst [] = [(obj, [inst])]"
| "content_insert obj inst ((k, v) # r) =
     (if obj < k then (obj, [inst]) # (k, v) # r
      else if obj = k then (k, set_insert inst v) # r
      else (k, v) # content_insert obj inst r)"

subsection \<open>Queries\<close>

definition get_object_idx :: "('m, 'b) Selection \<Rightarrow> int" where
  "get_object_idx s =
     (if length (cache_content s) = 1 then fst (hd (cache_content s)) else - 1)"

definition get_instance_idx :: "('m, 'b) Selection \<Rightarrow> int" where
  "get_instance_idx s =
     (if length (cache_content s) = 1 \<and> length (snd (hd (cache_content s))) = 1
      then hd (snd (hd (cache_content s))) else - 1)"

text \<open>
  Modelled from the spec: the classification predicates are inline members declared in
  \<^verbatim>\<open>Selection.hpp\<close> (Section 6: is-single-X / is-multiple-X / is-mixed / is-empty);
  each tests the derived selection type.
\<close>

definition is_empty :: "('m, 'b) Selection \<Rightarrow> bool" where
  "is_empty s = (m_type s = Empty)"

definition sel_is_wipe_tower :: "('m, 'b) Selection \<Rightarrow> bool" where
  "sel_is_wipe_tower s = (m_type s = WipeTower)"

definition sel_is_modifier :: "('m, 'b) Selection \<Rightarrow> bool" where
  "sel_is_modifier s = (m_type s = SingleModifier \<or> m_type s = MultipleModifier)"

definition is_single_modifier :: "('m, 'b) Selection \<Rightarrow> bool" where
  "is_single_modifier s = (m_type s = SingleModifier)"

definition is_single_volume :: "('m, 'b) Selection \<Rightarrow> bool" where
  "is_single_volume s = (m_type s = SingleVolume)"

definition is_single_full_object :: "('m, 'b) Selection \<Rightarrow> bool" where
  "is_single_full_object s = (m_type s = SingleFullObject)"

definition is_multiple_full_object :: "('m, 'b) Selection \<Rightarrow> bool" where
  "is_multiple_full_object s = (m_type s = MultipleFullObject)"

definition is_multiple_full_instance :: "('m, 'b) Selection \<Rightarrow> bool" where
  "is_multiple_full_instance s = (m_type s = MultipleFullInstance)"

definition is_mixed :: "('m, 'b) Selection \<Rightarrow> bool" where
  "is_mixed s = (m_type s = Mixed)"

definition contains_volume :: "('m, 'b) Selection \<Rightarrow> nat \<Rightarrow> bool" where
  "contains_volume s vidx = (vidx \<in> set (m_list s))"

text \<open>\<^verbatim>\<open>Selection::get_volume\<close>: the inner \<open>None\<close> is the null pointer returned.\<close>

definition get_volume :: "('m, 'b) Selection \<Rightarrow> nat \<Rightarrow> GLVolume option option" where
  "get_volume s vidx =
     (if \<not> m_valid s then Some None
      else do {
        vs \<leftarrow> m_volumes s;
        Some (if vidx < usize (length vs) then Some (vs ! vidx) else None)
      })"

text \<open>\<^verbatim>\<open>Selection::_update_valid\<close>, \<^verbatim>\<open>set_volumes\<close>, \<^verbatim>\<open>set_model\<close>.\<close>

definition update_valid :: "('m, 'b) Selection \<Rightarrow> ('m, 'b) Selection" where
  "update_valid s = s\<lparr>m_valid := (m_volumes s \<noteq> None \<and> m_model s \<noteq> None)\<rparr>"

definition set_volumes :: "('m, 'b) Selection \<Rightarrow> GLVolume list option \<Rightarrow> ('m, 'b) Selection" where
  "set_volumes s volumes = update_valid (s\<lparr>m_volumes := volumes\<rparr>)"

definition set_model :: "('m, 'b) Selection \<Rightarrow> ModelObject list option \<Rightarrow> ('m, 'b) Selection" where
  "set_model s model = update_valid (s\<lparr>m_model := model\<rparr>)"

text \<open>The class invariant kept by \<open>update_valid\<close>: the validity flag tells whether both
  pointers are set.\<close>

definition bound_inv :: "('m, 'b) Selection \<Rightarrow> bool" where
  "bound_inv s = (m_valid s = (m_volumes s \<noteq> None \<and> m_model s \<noteq> None))"

subsection \<open>Private mutators\<close>

text \<open>The leading underscore of the private members is written \<open>priv_\<close>.\<close>

definition priv_add_volume :: "('m, 'b) Selection \<Rightarrow> nat \<Rightarrow> ('m, 'b) Selection option" where
  "priv_add_volume s vidx = do {
     vs \<leftarrow> m_volumes s;
     v \<leftarrow> vector_at vs vidx;
     Some (s\<lparr>m_list := set_insert vidx (m_list s),
             m_volumes := Some (vs[vidx := v\<lparr>selected := True\<rparr>])\<rparr>)
   }"

definition priv_remove_volume :: "('m, 'b) Selection \<Rightarrow> nat \<Rightarrow> ('m, 'b) Selection option" where
  "priv_remove_volume s vidx =
     (if vidx \<notin> set (m_list s) then Some s
      else do {
        vs \<leftarrow> m_volumes s;
        v \<leftarrow> vector_at vs vidx;
        Some (s\<lparr>m_list := set_erase vidx (m_list s),
                m_volumes := Some (vs[vidx := v\<lparr>selected := False\<rparr>])\<rparr>)
      })"

text \<open>
  The loop \<^verbatim>\<open>for (i = 0; i < m_volumes->size(); ++i) if (P(*(*m_volumes)[i])) f(i);\<close>
  over the indices \<open>is\<close>.
\<close>

fun for_volumes ::
  "(GLVolume \<Rightarrow> bool) \<Rightarrow> (('m, 'b) Selection \<Rightarrow> nat \<Rightarrow> ('m, 'b) Selection option)
     \<Rightarrow> nat list \<Rightarrow> ('m, 'b) Selection \<Rightarrow> ('m, 'b) Selection option" where
  "for_volumes P f [] s = Some s"
| "for_volumes P f (i # is) s = do {
     vs \<leftarrow> m_volumes s;
     v \<leftarrow> vector_at vs i;
     s' \<leftarrow> (if P v then f s i else Some s);
     for_volumes P f is s'
   }"

definition all_indices :: "('m, 'b) Selection \<Rightarrow> nat list option" where
  "all_indices s = do { vs \<leftarrow> m_volumes s; Some [0..<usize (length vs)] }"

definition priv_add_instance :: "('m, 'b) Selection \<Rightarrow> nat \<Rightarrow> nat \<Rightarrow> ('m, 'b) Selection option" where
  "priv_add_instance s oidx iidx = do {
     is \<leftarrow> all_indices s;
     for_volumes (\<lambda>v. u32 (object_idx v) = oidx \<and> u32 (instance_idx v) = iidx)
       priv_add_volume is s
   }"

definition priv_add_object :: "('m, 'b) Selection \<Rightarrow> nat \<Rightarrow> ('m, 'b) Selection option" where
  "priv_add_object s oidx = do {
     is \<leftarrow> all_indices s;
     for_volumes (\<lambda>v. u32 (object_idx v) = oidx) priv_add_volume is s
   }"

definition priv_remove_instance :: "('m, 'b) Selection \<Rightarrow> nat \<Rightarrow> nat \<Rightarrow> ('m, 'b) Selection option" where
  "priv_remove_instance s oidx iidx = do {
     is \<leftarrow> all_indices s;
     for_volumes (\<lambda>v. u32 (object_idx v) = oidx \<and> u32 (instance_idx v) = iidx)
       priv_remove_volume is s
   }"

definition priv_remove_object :: "('m, 'b) Selection \<Rightarrow> nat \<Rightarrow> ('m, 'b) Selection option" where
  "priv_remove_object s oidx = do {
     is \<leftarrow> all_indices s;
     for_volumes (\<lambda>v. u32 (object_idx v) = oidx) priv_remove_volume is s
   }"

subsection \<open>Classification: \<^verbatim>\<open>Selection::_update_type\<close>\<close>

text \<open>The first loop: the object-to-instances map of the selected volumes.\<close>

fun build_content ::
  "GLVolume list \<Rightarrow> nat list \<Rightarrow> (int \<times> int list) list \<Rightarrow> (int \<times> int list) list option" where
  "build_content vs [] c = Some c"
| "build_content vs (i # is) c = do {
     volume \<leftarrow> vector_at vs i;
     build_content vs is (content_insert (object_idx volume) (instance_idx volume) c)
   }"

text \<open>The loop that sums \<^verbatim>\<open>volumes_count * instances_count\<close> over the selected objects.\<close>

fun sels_cntr_loop :: "ModelObject list \<Rightarrow> (int \<times> int list) list \<Rightarrow> nat \<Rightarrow> nat option" where
  "sels_cntr_loop objs [] n = Some n"
| "sels_cntr_loop objs (e # r) n = do {
     model_object \<leftarrow> objects_at objs (fst e);
     sels_cntr_loop objs r
       (uadd n (umul (usize (volumes_size model_object)) (usize (instances_size model_object))))
   }"

text \<open>
  The decision tree of \<^verbatim>\<open>_update_type\<close>: the type, the mode (some types force
  \<open>Instance\<close>) and \<^verbatim>\<open>requires_disable\<close>. The type starts as \<open>Mixed\<close> and stays so
  where no branch assigns it. The indices of \<open>lst\<close> have been read by the first loop
  before, so the counting loops read inside the list.
\<close>

definition classify ::
  "bool \<Rightarrow> ModelObject list option \<Rightarrow> EMode \<Rightarrow> GLVolume list \<Rightarrow> nat list
     \<Rightarrow> (int \<times> int list) list \<Rightarrow> (EType \<times> EMode \<times> bool) option" where
  "classify valid model mode vs lst content =
     (if \<not> valid then Some (Invalid, mode, False)
      else if lst = [] then Some (Empty, mode, False)
      else if length lst = 1 then do {
        first \<leftarrow> vector_at vs (hd lst);
        if is_wipe_tower first then Some (WipeTower, mode, False)
        else if is_modifier first then Some (SingleModifier, mode, True)
        else do {
          objs \<leftarrow> model;
          model_object \<leftarrow> objects_at objs (object_idx first);
          let volumes_count = usize (volumes_size model_object);
          let instances_count = usize (instances_size model_object);
          if umul volumes_count instances_count = 1 then Some (SingleFullObject, Instance, False)
          else if volumes_count = 1 then Some (SingleFullInstance, Instance, False)
          else Some (SingleVolume, mode, True)
        }
      }
      else if length content = 1 then do {
        objs \<leftarrow> model;
        model_object \<leftarrow> objects_at objs (fst (hd content));
        let model_volumes_count = usize (volumes_size model_object);
        let sla_volumes_count = usize (length (filter (\<lambda>i. volume_idx (vs ! i) < 0) lst));
        let volumes_count = uadd model_volumes_count sla_volumes_count;
        let instances_count = usize (instances_size model_object);
        let selected_instances_count = usize (length (snd (hd content)));
        if umul volumes_count instances_count = usize (length lst)
        then Some (SingleFullObject, Instance, False)
        else if selected_instances_count = 1 then
          (if volumes_count = usize (length lst) then Some (SingleFullInstance, Instance, False)
           else let modifiers_count = usize (length (filter (\<lambda>i. is_modifier (vs ! i)) lst)) in
             if modifiers_count = 0 then Some (MultipleVolume, mode, True)
             else if modifiers_count = usize (length lst) then Some (MultipleModifier, mode, True)
             else Some (Mixed, mode, False))
        else if selected_instances_count > 1
                \<and> umul selected_instances_count volumes_count = usize (length lst)
        then Some (MultipleFullInstance, Instance, False)
        else Some (Mixed, mode, False)
      }
      else do {
        objs \<leftarrow> model;
        sels_cntr \<leftarrow> sels_cntr_loop objs content 0;
        if sels_cntr = usize (length lst) then Some (MultipleFullObject, Instance, False)
        else Some (Mixed, mode, False)
      })"

definition update_type :: "('m, 'b) Selection \<Rightarrow> ('m, 'b) Selection option" where
  "update_type s = do {
     vs \<leftarrow> m_volumes s;
     content \<leftarrow> build_content vs (m_list s) [];
     r \<leftarrow> classify (m_valid s) (m_model s) (m_mode s) vs (m_list s) content;
     let s1 = s\<lparr>cache_content := content, m_type := fst r, m_mode := fst (snd r)\<rparr>;
     let requires_disable = snd (snd r);
     let oidx = get_object_idx s1;
     let iidx = get_instance_idx s1;
     Some (s1\<lparr>m_volumes := Some (map (\<lambda>v. v\<lparr>disabled :=
              (if requires_disable then object_idx v \<noteq> oidx \<or> instance_idx v \<noteq> iidx
               else False)\<rparr>) vs)\<rparr>)
   }"

subsection \<open>Public mutators\<close>

text \<open>The loop of \<open>clear\<close> that resets the flag of every selected volume.\<close>

fun deselect_all :: "GLVolume list \<Rightarrow> nat list \<Rightarrow> GLVolume list option" where
  "deselect_all vs [] = Some vs"
| "deselect_all vs (i # is) = do {
     v \<leftarrow> vector_at vs i;
     deselect_all (vs[i := v\<lparr>selected := False\<rparr>]) is
   }"

definition clear :: "('m, 'b) Selection \<Rightarrow> ('m, 'b) Selection option" where
  "clear s =
     (if \<not> m_valid s then Some s
      else do {
        vs \<leftarrow> m_volumes s;
        vs' \<leftarrow> deselect_all vs (m_list s);
        s1 \<leftarrow> update_type (s\<lparr>m_volumes := Some vs', m_list := []\<rparr>);
        Some (s1\<lparr>m_bounding_box_dirty := True,
                 sidebar_cache_resets := Suc (sidebar_cache_resets s1)\<rparr>)
      })"

text \<open>\<^verbatim>\<open>if (b) clear();\<close>\<close>

definition clear_if :: "bool \<Rightarrow> ('m, 'b) Selection \<Rightarrow> ('m, 'b) Selection option" where
  "clear_if b s = (if b then clear s else Some s)"

text \<open>\<open>add\<close> in its steps: the reset condition, the choice of the mode, the
  \<^verbatim>\<open>switch (m_mode)\<close>.\<close>

definition add_needs_reset :: "('m, 'b) Selection \<Rightarrow> GLVolume \<Rightarrow> bool \<Rightarrow> bool" where
  "add_needs_reset s volume as_single_selection =
     (as_single_selection
      \<or> is_wipe_tower volume
      \<or> (sel_is_wipe_tower s \<and> \<not> is_wipe_tower volume)
      \<or> (\<not> sel_is_modifier s \<and> is_modifier volume)
      \<or> (sel_is_modifier s \<and> \<not> is_modifier volume))"

definition add_select_mode :: "('m, 'b) Selection \<Rightarrow> GLVolume \<Rightarrow> nat \<Rightarrow> ('m, 'b) Selection" where
  "add_select_mode s volume vidx =
     (if is_modifier volume then s\<lparr>m_mode := Volume\<rparr>
      else if \<not> contains_volume s vidx then s\<lparr>m_mode := Instance\<rparr>
      else s)"

definition add_switch :: "('m, 'b) Selection \<Rightarrow> GLVolume \<Rightarrow> nat \<Rightarrow> ('m, 'b) Selection option" where
  "add_switch s volume vidx =
     (case m_mode s of
        Volume \<Rightarrow>
          if volume_idx volume \<ge> 0 \<and> (is_empty s \<or> instance_idx volume = get_instance_idx s)
          then priv_add_volume s vidx else Some s
      | Instance \<Rightarrow> priv_add_instance s (u32 (object_idx volume)) (u32 (instance_idx volume)))"

text \<open>\<open>volume\<close> is read once: \<open>clear\<close> writes the flags \<open>selected\<close> and \<open>disabled\<close>
  only, which \<open>add\<close> does not read.\<close>

definition add :: "('m, 'b) Selection \<Rightarrow> nat \<Rightarrow> bool \<Rightarrow> ('m, 'b) Selection option" where
  "add s vidx as_single_selection =
     (if \<not> m_valid s then Some s
      else do {
        vs \<leftarrow> m_volumes s;
        if usize (length vs) \<le> vidx then Some s
        else do {
          let volume = vs ! vidx;
          if sel_is_wipe_tower s \<and> is_wipe_tower volume then Some s
          else do {
            s1 \<leftarrow> clear_if (add_needs_reset s volume as_single_selection) s;
            s3 \<leftarrow> add_switch (add_select_mode s1 volume vidx) volume vidx;
            s4 \<leftarrow> update_type s3;
            Some (s4\<lparr>m_bounding_box_dirty := True\<rparr>)
          }
        }
      })"

definition remove :: "('m, 'b) Selection \<Rightarrow> nat \<Rightarrow> ('m, 'b) Selection option" where
  "remove s vidx =
     (if \<not> m_valid s then Some s
      else do {
        vs \<leftarrow> m_volumes s;
        if usize (length vs) \<le> vidx then Some s
        else do {
          let volume = vs ! vidx;
          s1 \<leftarrow> (case m_mode s of
                   Volume \<Rightarrow> priv_remove_volume s vidx
                 | Instance \<Rightarrow>
                     priv_remove_instance s (u32 (object_idx volume)) (u32 (instance_idx volume)));
          s2 \<leftarrow> update_type s1;
          Some (s2\<lparr>m_bounding_box_dirty := True\<rparr>)
        }
      })"

definition add_object :: "('m, 'b) Selection \<Rightarrow> nat \<Rightarrow> bool \<Rightarrow> ('m, 'b) Selection option" where
  "add_object s oidx as_single_selection =
     (if \<not> m_valid s then Some s
      else do {
        s1 \<leftarrow> clear_if as_single_selection s;
        s2 \<leftarrow> priv_add_object (s1\<lparr>m_mode := Instance\<rparr>) oidx;
        s3 \<leftarrow> update_type s2;
        Some (s3\<lparr>m_bounding_box_dirty := True\<rparr>)
      })"

definition remove_object :: "('m, 'b) Selection \<Rightarrow> nat \<Rightarrow> ('m, 'b) Selection option" where
  "remove_object s oidx =
     (if \<not> m_valid s then Some s
      else do {
        s1 \<leftarrow> priv_remove_object s oidx;
        s2 \<leftarrow> update_type s1;
        Some (s2\<lparr>m_bounding_box_dirty := True\<rparr>)
      })"

definition add_instance ::
  "('m, 'b) Selection \<Rightarrow> nat \<Rightarrow> nat \<Rightarrow> bool \<Rightarrow> ('m, 'b) Selection option" where
  "add_instance s oidx iidx as_single_selection =
     (if \<not> m_valid s then Some s
      else do {
        s1 \<leftarrow> clear_if as_single_selection s;
        s2 \<leftarrow> priv_add_instance (s1\<lparr>m_mode := Instance\<rparr>) oidx iidx;
        s3 \<leftarrow> update_type s2;
        Some (s3\<lparr>m_bounding_box_dirty := True\<rparr>)
      })"

definition remove_instance :: "('m, 'b) Selection \<Rightarrow> nat \<Rightarrow> nat \<Rightarrow> ('m, 'b) Selection option" where
  "remove_instance s oidx iidx =
     (if \<not> m_valid s then Some s
      else do {
        s1 \<leftarrow> priv_remove_instance s oidx iidx;
        s2 \<leftarrow> update_type s1;
        Some (s2\<lparr>m_bounding_box_dirty := True\<rparr>)
      })"

text \<open>\<open>add_volume\<close> takes the object and the part index as \<^verbatim>\<open>unsigned int\<close> and the
  instance index as \<^verbatim>\<open>int\<close>.\<close>

definition add_volume ::
  "('m, 'b) Selection \<Rightarrow> nat \<Rightarrow> nat \<Rightarrow> int \<Rightarrow> bool \<Rightarrow> ('m, 'b) Selection option" where
  "add_volume s oidx pidx iidx as_single_selection =
     (if \<not> m_valid s then Some s
      else do {
        s1 \<leftarrow> clear_if as_single_selection s;
        let s2 = s1\<lparr>m_mode := Volume\<rparr>;
        is \<leftarrow> all_indices s2;
        s3 \<leftarrow> for_volumes
                (\<lambda>v. (u32 (object_idx v) = oidx \<and> u32 (volume_idx v) = pidx)
                      \<and> (iidx \<noteq> - 1 \<and> instance_idx v = iidx))
                priv_add_volume is s2;
        s4 \<leftarrow> update_type s3;
        Some (s4\<lparr>m_bounding_box_dirty := True\<rparr>)
      })"

definition remove_volume :: "('m, 'b) Selection \<Rightarrow> nat \<Rightarrow> nat \<Rightarrow> ('m, 'b) Selection option" where
  "remove_volume s oidx pidx =
     (if \<not> m_valid s then Some s
      else do {
        is \<leftarrow> all_indices s;
        s1 \<leftarrow> for_volumes (\<lambda>v. u32 (object_idx v) = oidx \<and> u32 (volume_idx v) = pidx)
                priv_remove_volume is s;
        s2 \<leftarrow> update_type s1;
        Some (s2\<lparr>m_bounding_box_dirty := True\<rparr>)
      })"

definition add_all :: "('m, 'b) Selection \<Rightarrow> ('m, 'b) Selection option" where
  "add_all s =
     (if \<not> m_valid s then Some s
      else do {
        s1 \<leftarrow> clear (s\<lparr>m_mode := Instance\<rparr>);
        is \<leftarrow> all_indices s1;
        s2 \<leftarrow> for_volumes (\<lambda>v. \<not> is_wipe_tower v) priv_add_volume is s1;
        s3 \<leftarrow> update_type s2;
        Some (s3\<lparr>m_bounding_box_dirty := True\<rparr>)
      })"

text \<open>
  \<open>volumes_changed\<close>. The argument is the \<^verbatim>\<open>std::vector<size_t>\<close> from old to new
  indices, with \<^verbatim>\<open>size_t(-1)\<close> for a removed volume. The state passed in holds the new
  volume list already (the list is owned by the caller) and the old indices in \<open>m_list\<close>.
\<close>

definition size_t_max :: nat where
  "size_t_max = 2 ^ 64 - 1"

fun remap_loop ::
  "EMode \<Rightarrow> GLVolume list option \<Rightarrow> nat list \<Rightarrow> nat list
     \<Rightarrow> nat list \<times> (nat \<times> nat) list \<Rightarrow> (nat list \<times> (nat \<times> nat) list) option" where
  "remap_loop mode volumes mp [] acc = Some acc"
| "remap_loop mode volumes mp (idx # r) acc = do {
     e \<leftarrow> vector_at mp idx;
     if e \<noteq> size_t_max then do {
       let new_idx = usize e;
       let list_new = set_insert new_idx (fst acc);
       if mode = Instance then do {
         vs \<leftarrow> volumes;
         volume \<leftarrow> vector_at vs new_idx;
         remap_loop mode volumes mp r
           (list_new, snd acc @ [(u32 (object_idx volume), u32 (instance_idx volume))])
       }
       else remap_loop mode volumes mp r (list_new, snd acc)
     }
     else remap_loop mode volumes mp r acc
   }"

text \<open>Modelled from the spec: \<^verbatim>\<open>sort_remove_duplicates\<close> is a utility declared outside
  this file; it sorts the vector and removes repeated entries.\<close>

definition sort_remove_duplicates :: "(nat \<times> nat) list \<Rightarrow> (nat \<times> nat) list" where
  "sort_remove_duplicates xs = remdups_adj (sort xs)"

text \<open>The block \<^verbatim>\<open>if (!model_instances.empty()) { ... }\<close> of \<open>volumes_changed\<close>.\<close>

definition add_model_instances ::
  "('m, 'b) Env \<Rightarrow> ('m, 'b) Selection \<Rightarrow> (nat \<times> nat) list \<Rightarrow> ('m, 'b) Selection option" where
  "add_model_instances env s model_instances =
     (if model_instances \<noteq> [] then
        (if \<not> NDEBUG env \<and> m_mode s \<noteq> Instance then None
         else do {
           let sorted_instances = sort_remove_duplicates model_instances;
           is \<leftarrow> all_indices s;
           for_volumes
             (\<lambda>v. list_ex (\<lambda>mi. object_idx v = s32 (fst mi) \<and> instance_idx v = s32 (snd mi))
                     sorted_instances)
             priv_add_volume is s
         })
      else Some s)"

definition volumes_changed ::
  "('m, 'b) Env \<Rightarrow> ('m, 'b) Selection \<Rightarrow> nat list \<Rightarrow> ('m, 'b) Selection option" where
  "volumes_changed env s map_volume_old_to_new =
     (if \<not> NDEBUG env \<and> \<not> m_valid s then None
      else do {
        r \<leftarrow> remap_loop (m_mode s) (m_volumes s) map_volume_old_to_new (m_list s) ([], []);
        s2 \<leftarrow> add_model_instances env (s\<lparr>m_list := fst r\<rparr>) (snd r);
        s3 \<leftarrow> update_type s2;
        Some (s3\<lparr>m_bounding_box_dirty := True\<rparr>)
      })"

subsection \<open>Drag-start snapshot and bounding box\<close>

text \<open>The two constructors of \<^verbatim>\<open>TransformCache\<close>. \<^verbatim>\<open>assemble_transform\<close> is called
  with its trailing arguments left out; they are the zero rotation, the unit scale and the
  unit mirror.\<close>

definition default_transform_cache :: "('m, 'b) Env \<Rightarrow> 'm TransformCache" where
  "default_transform_cache env =
     \<lparr>tc_position = vzero, tc_rotation = vzero, tc_scaling_factor = vones, tc_mirror = vones,
      tc_rotation_matrix = identity env, tc_scale_matrix = identity env,
      tc_mirror_matrix = identity env, tc_full_matrix = identity env\<rparr>"

definition make_transform_cache :: "('m, 'b) Env \<Rightarrow> Transformation \<Rightarrow> 'm TransformCache" where
  "make_transform_cache env t =
     \<lparr>tc_position = t_offset t, tc_rotation = t_rotation t,
      tc_scaling_factor = t_scaling_factor t, tc_mirror = t_mirror t,
      tc_rotation_matrix = assemble_transform env vzero (t_rotation t) vones vones,
      tc_scale_matrix = assemble_transform env vzero vzero (t_scaling_factor t) vones,
      tc_mirror_matrix = assemble_transform env vzero vzero vones (t_mirror t),
      tc_full_matrix = get_matrix env t\<rparr>"

definition default_volume_cache :: "('m, 'b) Env \<Rightarrow> 'm VolumeCache" where
  "default_volume_cache env =
     \<lparr>vc_volume = default_transform_cache env, vc_instance = default_transform_cache env\<rparr>"

definition make_volume_cache :: "('m, 'b) Env \<Rightarrow> GLVolume \<Rightarrow> 'm VolumeCache" where
  "make_volume_cache env v =
     \<lparr>vc_volume = make_transform_cache env (get_volume_transformation v),
      vc_instance = make_transform_cache env (get_instance_transformation v)\<rparr>"

text \<open>
  \<^verbatim>\<open>m_cache.volumes_data[i]\<close> is \<^verbatim>\<open>std::map::operator[]\<close>: a missing key is inserted
  with a default-constructed value. \<open>touch\<close> is the insertion, \<open>volumes_data\<close> the value.
\<close>

definition touch :: "('m, 'b) Env \<Rightarrow> nat \<Rightarrow> ('m, 'b) Selection \<Rightarrow> ('m, 'b) Selection" where
  "touch env i s =
     (case cache_volumes_data s i of
        Some c \<Rightarrow> s
      | None \<Rightarrow> s\<lparr>cache_volumes_data := (cache_volumes_data s)(i \<mapsto> default_volume_cache env)\<rparr>)"

definition volumes_data :: "('m, 'b) Env \<Rightarrow> ('m, 'b) Selection \<Rightarrow> nat \<Rightarrow> 'm VolumeCache" where
  "volumes_data env s i =
     (case cache_volumes_data s i of Some c \<Rightarrow> c | None \<Rightarrow> default_volume_cache env)"

fun merge_boxes :: "('m, 'b) Env \<Rightarrow> GLVolume list \<Rightarrow> nat list \<Rightarrow> 'b \<Rightarrow> 'b option" where
  "merge_boxes env vs [] b = Some b"
| "merge_boxes env vs (i # is) b = do {
     v \<leftarrow> vector_at vs i;
     merge_boxes env vs is (bb_merge env b (transformed_convex_hull_bounding_box env v))
   }"

definition calc_bounding_box :: "('m, 'b) Env \<Rightarrow> ('m, 'b) Selection \<Rightarrow> ('m, 'b) Selection option" where
  "calc_bounding_box env s = do {
     b \<leftarrow> (if m_valid s \<and> m_list s \<noteq> []
            then do { vs \<leftarrow> m_volumes s; merge_boxes env vs (m_list s) (bb_empty env) }
            else Some (bb_empty env));
     Some (s\<lparr>m_bounding_box := b, m_bounding_box_dirty := False\<rparr>)
   }"

definition get_bounding_box ::
  "('m, 'b) Env \<Rightarrow> ('m, 'b) Selection \<Rightarrow> ('b \<times> ('m, 'b) Selection) option" where
  "get_bounding_box env s = do {
     s' \<leftarrow> (if m_bounding_box_dirty s then calc_bounding_box env s else Some s);
     Some (m_bounding_box s', s')
   }"

definition set_caches :: "('m, 'b) Env \<Rightarrow> ('m, 'b) Selection \<Rightarrow> ('m, 'b) Selection option" where
  "set_caches env s = do {
     vs \<leftarrow> m_volumes s;
     let s1 = s\<lparr>cache_volumes_data :=
                  (\<lambda>i. if i < usize (length vs) then Some (make_volume_cache env (vs ! i))
                       else None)\<rparr>;
     r \<leftarrow> get_bounding_box env s1;
     Some ((snd r)\<lparr>cache_dragging_center := bb_center env (fst r)\<rparr>)
   }"

definition start_dragging :: "('m, 'b) Env \<Rightarrow> ('m, 'b) Selection \<Rightarrow> ('m, 'b) Selection option" where
  "start_dragging env s = (if \<not> m_valid s then Some s else set_caches env s)"

subsection \<open>\<^verbatim>\<open>Selection::is_single_full_instance\<close>\<close>

fun same_instance_parts :: "GLVolume list \<Rightarrow> int \<Rightarrow> int \<Rightarrow> nat list \<Rightarrow> int list \<Rightarrow> int list option option" where
  "same_instance_parts vs oidx iidx [] acc = Some (Some acc)"
| "same_instance_parts vs oidx iidx (i # is) acc = do {
     v \<leftarrow> vector_at vs i;
     if oidx \<noteq> object_idx v \<or> iidx \<noteq> instance_idx v then Some None
     else same_instance_parts vs oidx iidx is
            (if volume_idx v \<ge> 0 then set_insert (volume_idx v) acc else acc)
   }"

definition is_single_full_instance :: "('m, 'b) Selection \<Rightarrow> bool option" where
  "is_single_full_instance s =
     (if m_type s = SingleFullInstance then Some True
      else if m_type s = SingleFullObject then Some (get_instance_idx s \<noteq> - 1)
      else if m_list s = [] then Some False
      else do {
        vs \<leftarrow> m_volumes s;
        if vs = [] then Some False
        else do {
          let oidx = (if m_valid s then get_object_idx s else - 1);
          if oidx < 0 then Some False
          else do {
            objs \<leftarrow> m_model s;
            if s32 (length objs) \<le> oidx then Some False
            else do {
              first \<leftarrow> vector_at vs (hd (m_list s));
              r \<leftarrow> same_instance_parts vs oidx (instance_idx first) (m_list s) [];
              case r of
                None \<Rightarrow> Some False
              | Some volumes_idxs \<Rightarrow> do {
                  model_object \<leftarrow> objects_at objs oidx;
                  Some (volumes_size model_object = length volumes_idxs)
                }
            }
          }
        }
      })"

subsection \<open>Synchronisation of the unselected siblings\<close>

definition volume_at :: "('m, 'b) Selection \<Rightarrow> nat \<Rightarrow> GLVolume option" where
  "volume_at s i = do { vs \<leftarrow> m_volumes s; vector_at vs i }"

definition update_volume ::
  "nat \<Rightarrow> (GLVolume \<Rightarrow> GLVolume) \<Rightarrow> ('m, 'b) Selection \<Rightarrow> ('m, 'b) Selection option" where
  "update_volume i g s = do {
     vs \<leftarrow> m_volumes s;
     v \<leftarrow> vector_at vs i;
     Some (s\<lparr>m_volumes := Some (vs[i := g v])\<rparr>)
   }"

text \<open>A loop over the selected indices whose body may fail.\<close>

fun for_list :: "('s \<Rightarrow> nat \<Rightarrow> 's option) \<Rightarrow> nat list \<Rightarrow> 's \<Rightarrow> 's option" where
  "for_list f [] s = Some s"
| "for_list f (i # is) s = do { s' \<leftarrow> f s i; for_list f is s' }"

text \<open>\<^verbatim>\<open>rotation_xyz_diff\<close> composes Eigen quaternions; its conversion to an angle and an
  axis is the parameter \<open>angle_axis_of_diff\<close>. The assertions are compiled without
  \<^verbatim>\<open>NDEBUG\<close> only.\<close>

definition rotation_diff_z :: "('m, 'b) Env \<Rightarrow> Vec3d \<Rightarrow> Vec3d \<Rightarrow> real option" where
  "rotation_diff_z env rot_xyz_from rot_xyz_to =
     (let angle = fst (angle_axis_of_diff env rot_xyz_from rot_xyz_to);
          axis = snd (angle_axis_of_diff env rot_xyz_from rot_xyz_to)
      in if \<not> NDEBUG env \<and> \<bar>angle\<bar> > 1 / 10 ^ 8
            \<and> \<not> (\<bar>vget axis X\<bar> < 1 / 10 ^ 8 \<and> \<bar>vget axis Y\<bar> < 1 / 10 ^ 8)
         then None
         else Some (if vget axis Z < 0 then - angle else angle))"

definition is_rotation_xy_synchronized :: "('m, 'b) Env \<Rightarrow> Vec3d \<Rightarrow> Vec3d \<Rightarrow> bool option" where
  "is_rotation_xy_synchronized env rot_xyz_from rot_xyz_to =
     (let angle = fst (angle_axis_of_diff env rot_xyz_from rot_xyz_to);
          axis = snd (angle_axis_of_diff env rot_xyz_from rot_xyz_to)
      in if \<bar>angle\<bar> < 1 / 10 ^ 8 then Some True
         else if \<bar>vget axis X\<bar> < 1 / 10 ^ 8 \<and> \<bar>vget axis Y\<bar> < 1 / 10 ^ 8
                 \<and> \<bar>\<bar>vget axis Z\<bar> - 1\<bar> < 1 / 10 ^ 8
         then Some True else None)"

text \<open>\<^verbatim>\<open>assert(is_rotation_xy_synchronized(a, b))\<close>.\<close>

definition assert_rotation_xy_synchronized :: "('m, 'b) Env \<Rightarrow> Vec3d \<Rightarrow> Vec3d \<Rightarrow> unit option" where
  "assert_rotation_xy_synchronized env a b =
     (if NDEBUG env then Some ()
      else do { r \<leftarrow> is_rotation_xy_synchronized env a b; if r then Some () else None })"

text \<open>\<^verbatim>\<open>verify_instances_rotation_synchronized\<close>; its loops run to
  \<^verbatim>\<open>(int)volumes.size()\<close>.\<close>

fun verify_rest :: "('m, 'b) Env \<Rightarrow> GLVolume list \<Rightarrow> nat \<Rightarrow> Vec3d \<Rightarrow> nat list \<Rightarrow> unit option" where
  "verify_rest env volumes idx_object rotation0 [] = Some ()"
| "verify_rest env volumes idx_object rotation0 (i # is) = do {
     _ \<leftarrow> (if object_idx (volumes ! i) = int idx_object
            then assert_rotation_xy_synchronized env (instance_rotation (volumes ! i)) rotation0
            else Some ());
     verify_rest env volumes idx_object rotation0 is
   }"

fun verify_objects :: "('m, 'b) Env \<Rightarrow> GLVolume list \<Rightarrow> nat list \<Rightarrow> unit option" where
  "verify_objects env volumes [] = Some ()"
| "verify_objects env volumes (idx_object # r) =
     (case filter (\<lambda>i. object_idx (volumes ! i) = int idx_object)
             [0..<nat (s32 (length volumes))] of
        [] \<Rightarrow> None
      | idx_volume_first # _ \<Rightarrow> do {
          _ \<leftarrow> verify_rest env volumes idx_object (instance_rotation (volumes ! idx_volume_first))
                 [Suc idx_volume_first..<nat (s32 (length volumes))];
          verify_objects env volumes r
        })"

definition verify_instances_rotation_synchronized ::
  "('m, 'b) Env \<Rightarrow> ModelObject list \<Rightarrow> GLVolume list \<Rightarrow> unit option" where
  "verify_instances_rotation_synchronized env model volumes =
     (if NDEBUG env then Some () else verify_objects env volumes [0..<length model])"

datatype SyncRotationType = SYNC_ROTATION_NONE | SYNC_ROTATION_FULL | SYNC_ROTATION_GENERAL

text \<open>
  The inner loop of \<^verbatim>\<open>_synchronize_unselected_instances\<close> for the selected volume
  \<open>i\<close> and the candidate \<open>j\<close>. \<open>sync_instance_rotation\<close> is the assertion on the
  snapshot and the \<^verbatim>\<open>switch (sync_rotation_type)\<close>; it returns the selection (the
  snapshot map may have got default entries) and the candidate with its new rotation.
\<close>

definition sync_instance_rotation ::
  "('m, 'b) Env \<Rightarrow> SyncRotationType \<Rightarrow> nat \<Rightarrow> nat \<Rightarrow> ('m, 'b) Selection \<Rightarrow> GLVolume \<Rightarrow> GLVolume
     \<Rightarrow> (('m, 'b) Selection \<times> GLVolume) option" where
  "sync_instance_rotation env sync_rotation_type i j s volume v = do {
     let s0 = (if NDEBUG env then s else touch env j (touch env i s));
     _ \<leftarrow> assert_rotation_xy_synchronized env
            (tc_rotation (vc_instance (volumes_data env s0 i)))
            (tc_rotation (vc_instance (volumes_data env s0 j)));
     let rotation = instance_rotation volume;
     case sync_rotation_type of
       SYNC_ROTATION_NONE \<Rightarrow> do {
         _ \<leftarrow> assert_rotation_xy_synchronized env rotation (instance_rotation v);
         Some (s0, v)
       }
     | SYNC_ROTATION_FULL \<Rightarrow> Some (s0, v\<lparr>instance_rotation := rotation\<rparr>)
     | SYNC_ROTATION_GENERAL \<Rightarrow> do {
         let s1 = touch env j (touch env i s0);
         z_diff \<leftarrow> rotation_diff_z env
                     (tc_rotation (vc_instance (volumes_data env s1 i)))
                     (tc_rotation (vc_instance (volumes_data env s1 j)));
         Some (s1, v\<lparr>instance_rotation :=
                       (vget rotation X, vget rotation Y, vget rotation Z + z_diff)\<rparr>)
       }
   }"

text \<open>The loop state is the selection and the set \<open>done\<close>. Both loops \<^verbatim>\<open>break\<close> once
  \<open>done\<close> holds every volume; from then on the condition stays true, so the remaining
  iterations are skipped.\<close>

definition sync_instance_step ::
  "('m, 'b) Env \<Rightarrow> SyncRotationType \<Rightarrow> nat \<Rightarrow> ('m, 'b) Selection \<times> nat list \<Rightarrow> nat
     \<Rightarrow> (('m, 'b) Selection \<times> nat list) option" where
  "sync_instance_step env sync_rotation_type i st j = do {
     vs \<leftarrow> m_volumes (fst st);
     if length (snd st) = length vs then Some st
     else if j \<in> set (snd st) then Some st
     else do {
       volume \<leftarrow> vector_at vs i;
       v \<leftarrow> vector_at vs j;
       if object_idx v \<noteq> object_idx volume \<or> instance_idx v = instance_idx volume then Some st
       else do {
         r \<leftarrow> sync_instance_rotation env sync_rotation_type i j (fst st) volume v;
         let v' = (snd r)\<lparr>instance_scaling_factor := instance_scaling_factor volume,
                           instance_mirror := instance_mirror volume\<rparr>;
         Some ((fst r)\<lparr>m_volumes := Some (vs[j := v'])\<rparr>, set_insert j (snd st))
       }
     }
   }"

definition sync_instance_outer ::
  "('m, 'b) Env \<Rightarrow> SyncRotationType \<Rightarrow> ('m, 'b) Selection \<times> nat list \<Rightarrow> nat
     \<Rightarrow> (('m, 'b) Selection \<times> nat list) option" where
  "sync_instance_outer env sync_rotation_type st i = do {
     vs \<leftarrow> m_volumes (fst st);
     if length (snd st) = length vs then Some st
     else do {
       volume \<leftarrow> vector_at vs i;
       if object_idx volume \<ge> 1000 then Some st
       else for_list (sync_instance_step env sync_rotation_type i) [0..<usize (length vs)] st
     }
   }"

definition synchronize_unselected_instances ::
  "('m, 'b) Env \<Rightarrow> ('m, 'b) Selection \<Rightarrow> SyncRotationType \<Rightarrow> ('m, 'b) Selection option" where
  "synchronize_unselected_instances env s sync_rotation_type = do {
     st \<leftarrow> for_list (sync_instance_outer env sync_rotation_type) (m_list s) (s, m_list s);
     _ \<leftarrow> (if NDEBUG env then Some ()
            else do {
              objs \<leftarrow> m_model (fst st);
              vs \<leftarrow> m_volumes (fst st);
              verify_instances_rotation_synchronized env objs vs
            });
     Some (fst st)
   }"

definition sync_volume_step :: "nat \<Rightarrow> ('m, 'b) Selection \<Rightarrow> nat \<Rightarrow> ('m, 'b) Selection option" where
  "sync_volume_step i s j =
     (if j = i then Some s
      else do {
        vs \<leftarrow> m_volumes s;
        volume \<leftarrow> vector_at vs i;
        v \<leftarrow> vector_at vs j;
        if object_idx v \<noteq> object_idx volume \<or> volume_idx v \<noteq> volume_idx volume then Some s
        else Some (s\<lparr>m_volumes := Some (vs[j := v\<lparr>volume_offset := volume_offset volume,
                        volume_rotation := volume_rotation volume,
                        volume_scaling_factor := volume_scaling_factor volume,
                        volume_mirror := volume_mirror volume\<rparr>])\<rparr>)
      })"

definition sync_volume_outer :: "('m, 'b) Selection \<Rightarrow> nat \<Rightarrow> ('m, 'b) Selection option" where
  "sync_volume_outer s i = do {
     vs \<leftarrow> m_volumes s;
     volume \<leftarrow> vector_at vs i;
     if object_idx volume \<ge> 1000 then Some s
     else for_list (sync_volume_step i) [0..<usize (length vs)] s
   }"

definition synchronize_unselected_volumes :: "('m, 'b) Selection \<Rightarrow> ('m, 'b) Selection option" where
  "synchronize_unselected_volumes s = for_list sync_volume_outer (m_list s) s"

text \<open>The block guarded by \<^verbatim>\<open>#if !DISABLE_INSTANCES_SYNCH\<close> that ends the transform
  operations.\<close>

definition synchronize ::
  "('m, 'b) Env \<Rightarrow> SyncRotationType \<Rightarrow> ('m, 'b) Selection \<Rightarrow> ('m, 'b) Selection option" where
  "synchronize env sync_rotation_type s =
     (if DISABLE_INSTANCES_SYNCH env then Some s
      else case m_mode s of
             Instance \<Rightarrow> synchronize_unselected_instances env s sync_rotation_type
           | Volume \<Rightarrow> synchronize_unselected_volumes s)"

subsection \<open>Transform operations\<close>

text \<open>
  Modelled from the spec: \<^verbatim>\<open>TransformationType\<close> is declared in \<^verbatim>\<open>Selection.hpp\<close>.
  The specification names its three choices: world or local, absolute or relative, joint
  or independent.
\<close>

record TransformationType =
  tt_local :: bool
  tt_relative :: bool
  tt_independent :: bool

definition world :: "TransformationType \<Rightarrow> bool" where
  "world tt = (\<not> tt_local tt)"

definition relative :: "TransformationType \<Rightarrow> bool" where
  "relative tt = tt_relative tt"

definition absolute :: "TransformationType \<Rightarrow> bool" where
  "absolute tt = (\<not> tt_relative tt)"

definition joint :: "TransformationType \<Rightarrow> bool" where
  "joint tt = (\<not> tt_independent tt)"

definition independent :: "TransformationType \<Rightarrow> bool" where
  "independent tt = tt_independent tt"

definition cross :: "Vec3d \<Rightarrow> Vec3d \<Rightarrow> Vec3d" where
  "cross a b = (vget a Y * vget b Z - vget a Z * vget b Y,
                vget a Z * vget b X - vget a X * vget b Z,
                vget a X * vget b Y - vget a Y * vget b X)"

definition vnormalize :: "Vec3d \<Rightarrow> Vec3d" where
  "vnormalize a =
     (let z = vget a X * vget a X + vget a Y * vget a Y + vget a Z * vget a Z
      in if z > 0 then (vget a X / sqrt z, vget a Y / sqrt z, vget a Z / sqrt z) else a)"

text \<open>The \<^verbatim>\<open>float\<close> literal \<^verbatim>\<open>0.999f\<close>.\<close>

definition float_0_999 :: real where
  "float_0_999 = 16760439 / 16777216"

text \<open>\<^verbatim>\<open>rotation.cwiseAbs().maxCoeff(&rot_axis_max)\<close>: the index of the first largest
  absolute component.\<close>

definition max_abs_coeff :: "Vec3d \<Rightarrow> nat" where
  "max_abs_coeff r =
     (if \<bar>vget r X\<bar> \<ge> \<bar>vget r Y\<bar> \<and> \<bar>vget r X\<bar> \<ge> \<bar>vget r Z\<bar> then 0
      else if \<bar>vget r Y\<bar> \<ge> \<bar>vget r Z\<bar> then 1 else 2)"

definition translate_step ::
  "('m, 'b) Env \<Rightarrow> Vec3d \<Rightarrow> bool \<Rightarrow> ('m, 'b) Selection \<Rightarrow> nat \<Rightarrow> ('m, 'b) Selection option" where
  "translate_step env displacement is_local s i = do {
     volume \<leftarrow> (if m_mode s = Volume then Some None
                else do { v \<leftarrow> volume_at s i; Some (Some v) });
     if m_mode s = Volume \<or> (case volume of Some v \<Rightarrow> is_wipe_tower v | None \<Rightarrow> False) then do {
       let s0 = touch env i s;
       let c = volumes_data env s0 i;
       if is_local
       then update_volume i
              (\<lambda>v. v\<lparr>volume_offset := vadd (tc_position (vc_volume c)) displacement\<rparr>) s0
       else do {
         let local_displacement =
               mat_vec env
                 (mat_inverse env
                    (mat_mul env
                       (mat_mul env (tc_rotation_matrix (vc_instance c))
                                    (tc_scale_matrix (vc_instance c)))
                       (tc_mirror_matrix (vc_instance c))))
                 displacement;
         update_volume i
           (\<lambda>v. v\<lparr>volume_offset := vadd (tc_position (vc_volume c)) local_displacement\<rparr>) s0
       }
     }
     else if m_mode s = Instance then do {
       let s0 = touch env i s;
       let c = volumes_data env s0 i;
       update_volume i
         (\<lambda>v. v\<lparr>instance_offset := vadd (tc_position (vc_instance c)) displacement\<rparr>) s0
     }
     else Some s
   }"

definition translate ::
  "('m, 'b) Env \<Rightarrow> ('m, 'b) Selection \<Rightarrow> Vec3d \<Rightarrow> bool \<Rightarrow> ('m, 'b) Selection option" where
  "translate env s displacement is_local =
     (if \<not> m_valid s then Some s
      else do {
        s1 \<leftarrow> for_list (translate_step env displacement is_local) (m_list s) s;
        s2 \<leftarrow> synchronize env SYNC_ROTATION_NONE s1;
        Some (s2\<lparr>m_bounding_box_dirty := True\<rparr>)
      })"

text \<open>The zero-rotation branch of \<open>rotate\<close>.\<close>

definition rotate_restore ::
  "('m, 'b) Env \<Rightarrow> ('m, 'b) Selection \<Rightarrow> nat \<Rightarrow> ('m, 'b) Selection option" where
  "rotate_restore env s i = do {
     _ \<leftarrow> volume_at s i;
     let s0 = touch env i s;
     let c = volumes_data env s0 i;
     case m_mode s0 of
       Instance \<Rightarrow>
         update_volume i
           (\<lambda>v. v\<lparr>instance_rotation := tc_rotation (vc_instance c),
                   instance_offset := tc_position (vc_instance c)\<rparr>) s0
     | Volume \<Rightarrow>
         update_volume i
           (\<lambda>v. v\<lparr>volume_rotation := tc_rotation (vc_volume c),
                   volume_offset := tc_position (vc_volume c)\<rparr>) s0
   }"

text \<open>The lambda \<^verbatim>\<open>rotate_instance\<close>; \<open>oif\<close> is the vector
  \<^verbatim>\<open>object_instance_first\<close>.\<close>

definition rotate_instance ::
  "('m, 'b) Env \<Rightarrow> Vec3d \<Rightarrow> nat \<Rightarrow> TransformationType \<Rightarrow> ('m, 'b) Selection \<times> int list \<Rightarrow> nat
     \<Rightarrow> (('m, 'b) Selection \<times> int list) option" where
  "rotate_instance env rotation rot_axis_max tt st i = do {
     volume \<leftarrow> volume_at (fst st) i;
     first_volume_idx \<leftarrow> (if object_idx volume < 0 then None
                           else vector_at (snd st) (nat (object_idx volume)));
     if rot_axis_max \<noteq> 2 \<and> first_volume_idx \<noteq> - 1 then
       (if \<not> NDEBUG env \<and> \<not> is_approx env (vget rotation Z) 0 then None
        else do {
          first_volume \<leftarrow> (if first_volume_idx < 0 then None
                           else volume_at (fst st) (nat first_volume_idx));
          let r = instance_rotation first_volume;
          let s0 = touch env i (touch env (u32 first_volume_idx) (fst st));
          z_diff \<leftarrow> rotation_diff_z env
                      (tc_rotation (vc_instance (volumes_data env s0 (u32 first_volume_idx))))
                      (tc_rotation (vc_instance (volumes_data env s0 i)));
          s1 \<leftarrow> update_volume i
                  (\<lambda>v. v\<lparr>instance_rotation := (vget r X, vget r Y, vget r Z + z_diff)\<rparr>) s0;
          Some (s1, snd st)
        })
     else do {
       let s0 = touch env i (fst st);
       let c = vc_instance (volumes_data env s0 i);
       let new_rotation =
            (if world tt
             then extract_euler_angles env
                    (mat_mul env (assemble_transform env vzero rotation vones vones)
                                 (tc_rotation_matrix c))
             else if absolute tt then rotation else vadd rotation (tc_rotation c));
       s1 \<leftarrow> (if rot_axis_max = 2 \<and> joint tt then
                 (let offset =
                        mat_vec env
                          (assemble_transform env vzero
                             (0, 0, vget new_rotation Z - vget (tc_rotation c) Z) vones vones)
                          (vsub (tc_position c) (cache_dragging_center s0))
                  in update_volume i
                       (\<lambda>v. v\<lparr>instance_offset := vadd (cache_dragging_center s0) offset\<rparr>) s0)
               else Some s0);
       s2 \<leftarrow> update_volume i (\<lambda>v. v\<lparr>instance_rotation := new_rotation\<rparr>) s1;
       Some (s2, (snd st)[nat (object_idx volume) := int i])
     }
   }"

definition rotate_step ::
  "('m, 'b) Env \<Rightarrow> Vec3d \<Rightarrow> nat \<Rightarrow> TransformationType \<Rightarrow> ('m, 'b) Selection \<times> int list \<Rightarrow> nat
     \<Rightarrow> (('m, 'b) Selection \<times> int list) option" where
  "rotate_step env rotation rot_axis_max tt st i = do {
     _ \<leftarrow> volume_at (fst st) i;
     sfi \<leftarrow> is_single_full_instance (fst st);
     if sfi then rotate_instance env rotation rot_axis_max tt st i
     else if is_single_volume (fst st) \<or> is_single_modifier (fst st) then
       (if independent tt
        then do {
          s1 \<leftarrow> update_volume i
                  (\<lambda>v. v\<lparr>volume_rotation := vadd (volume_rotation v) rotation\<rparr>) (fst st);
          Some (s1, snd st)
        }
        else do {
          let s0 = touch env i (fst st);
          let m = assemble_transform env vzero rotation vones vones;
          let new_rotation = extract_euler_angles env
                (mat_mul env m (tc_rotation_matrix (vc_volume (volumes_data env s0 i))));
          s1 \<leftarrow> update_volume i (\<lambda>v. v\<lparr>volume_rotation := new_rotation\<rparr>) s0;
          Some (s1, snd st)
        })
     else
       (case m_mode (fst st) of
          Instance \<Rightarrow> rotate_instance env rotation rot_axis_max tt st i
        | Volume \<Rightarrow> do {
            let s0 = touch env i (fst st);
            let c = volumes_data env s0 i;
            let m = assemble_transform env vzero rotation vones vones;
            let new_rotation = extract_euler_angles env
                  (mat_mul env m (tc_rotation_matrix (vc_volume c)));
            s1 \<leftarrow> (if joint tt then
                      (let local_pivot = mat_vec env (mat_inverse env (tc_full_matrix (vc_instance c)))
                                           (cache_dragging_center s0);
                           offset = mat_vec env m (vsub (tc_position (vc_volume c)) local_pivot)
                       in update_volume i (\<lambda>v. v\<lparr>volume_offset := vadd local_pivot offset\<rparr>) s0)
                    else Some s0);
            s2 \<leftarrow> update_volume i (\<lambda>v. v\<lparr>volume_rotation := new_rotation\<rparr>) s1;
            Some (s2, snd st)
          })
   }"

text \<open>\<^verbatim>\<open>Selection::rotate\<close> (the name \<open>rotate\<close> is a list function of HOL).\<close>

definition rotate_sel ::
  "('m, 'b) Env \<Rightarrow> ('m, 'b) Selection \<Rightarrow> Vec3d \<Rightarrow> TransformationType
     \<Rightarrow> ('m, 'b) Selection option" where
  "rotate_sel env s rotation transformation_type =
     (if \<not> m_valid s then Some s
      else if \<not> NDEBUG env \<and> \<not> (\<not> world transformation_type \<or> relative transformation_type)
      then None
      else do {
        r \<leftarrow> (if isApprox env rotation vzero
               then do { s1 \<leftarrow> for_list (rotate_restore env) (m_list s) s; Some (s1, 0) }
               else do {
                 let rot_axis_max = max_abs_coeff rotation;
                 objs \<leftarrow> m_model s;
                 st \<leftarrow> for_list (rotate_step env rotation rot_axis_max transformation_type)
                         (m_list s) (s, replicate (length objs) (- 1));
                 Some (fst st, rot_axis_max)
               });
        s2 \<leftarrow> synchronize env
                (if snd r = 2 then SYNC_ROTATION_NONE else SYNC_ROTATION_GENERAL) (fst r);
        Some (s2\<lparr>m_bounding_box_dirty := True\<rparr>)
      })"

definition flattening_rotate_step ::
  "('m, 'b) Env \<Rightarrow> Vec3d \<Rightarrow> ('m, 'b) Selection \<Rightarrow> nat \<Rightarrow> ('m, 'b) Selection option" where
  "flattening_rotate_step env normal s i = do {
     let s0 = touch env i s;
     let c = vc_instance (volumes_data env s0 i);
     let wst = tc_scale_matrix c;
     let scaling_factor = (1 / mat_coeff env wst 0 0, 1 / mat_coeff env wst 1 1,
                           1 / mat_coeff env wst 2 2);
     let wmt = tc_mirror_matrix c;
     let mirror_v = (mat_coeff env wmt 0 0, mat_coeff env wmt 1 1, mat_coeff env wmt 2 2);
     let rotation = extract_euler_angles env (tc_rotation_matrix c);
     let transformed_normal = vnormalize
           (mat_vec env (assemble_transform env vzero rotation scaling_factor mirror_v) normal);
     let axis = vnormalize (if vget transformed_normal Z > float_0_999 then (1, 0, 0)
                            else cross transformed_normal (0, 0, - 1));
     let extra_rotation = mat_mul env (identity env)
           (rotate_angle_axis env (arccos (- vget transformed_normal Z)) axis);
     let new_rotation = extract_euler_angles env
           (mat_mul env extra_rotation (tc_rotation_matrix c));
     update_volume i (\<lambda>v. v\<lparr>instance_rotation := new_rotation\<rparr>) s0
   }"

definition flattening_rotate ::
  "('m, 'b) Env \<Rightarrow> ('m, 'b) Selection \<Rightarrow> Vec3d \<Rightarrow> ('m, 'b) Selection option" where
  "flattening_rotate env s normal =
     (if \<not> m_valid s then Some s
      else do {
        s1 \<leftarrow> for_list (flattening_rotate_step env normal) (m_list s) s;
        s2 \<leftarrow> (if \<not> DISABLE_INSTANCES_SYNCH env \<and> m_mode s1 = Instance
               then synchronize_unselected_instances env s1 SYNC_ROTATION_FULL else Some s1);
        Some (s2\<lparr>m_bounding_box_dirty := True\<rparr>)
      })"

text \<open>\<^verbatim>\<open>DBL_MAX\<close>, the start value of the minimum in \<^verbatim>\<open>_ensure_on_bed\<close>.\<close>

definition DBL_MAX :: real where
  "DBL_MAX = (2 - 1 / 2 ^ 52) * 2 ^ 1023"

definition instances_min_z :: "('m, 'b) Env \<Rightarrow> GLVolume list \<Rightarrow> int \<times> int \<Rightarrow> real option" where
  "instances_min_z env vs key =
     (let zs = map (\<lambda>v. bb_min_z env (transformed_convex_hull_bounding_box env v))
                 (filter (\<lambda>v. \<not> is_wipe_tower v \<and> \<not> is_modifier v
                               \<and> (object_idx v, instance_idx v) = key) vs)
      in if zs = [] then None else Some (fold min zs DBL_MAX))"

definition ensure_on_bed :: "('m, 'b) Env \<Rightarrow> ('m, 'b) Selection \<Rightarrow> ('m, 'b) Selection option" where
  "ensure_on_bed env s = do {
     vs \<leftarrow> m_volumes s;
     Some (s\<lparr>m_volumes := Some (map (\<lambda>v.
        case instances_min_z env vs (object_idx v, instance_idx v) of
          None \<Rightarrow> v
        | Some z \<Rightarrow> v\<lparr>instance_offset :=
                        vset (instance_offset v) Z (vget (instance_offset v) Z - z)\<rparr>) vs)\<rparr>)
   }"

definition scale_step ::
  "('m, 'b) Env \<Rightarrow> Vec3d \<Rightarrow> bool \<Rightarrow> ('m, 'b) Selection \<Rightarrow> nat \<Rightarrow> ('m, 'b) Selection option" where
  "scale_step env scale_v is_local s i = do {
     sfi \<leftarrow> is_single_full_instance s;
     if sfi then update_volume i (\<lambda>v. v\<lparr>instance_scaling_factor := scale_v\<rparr>) s
     else if is_single_volume s \<or> is_single_modifier s
     then update_volume i (\<lambda>v. v\<lparr>volume_scaling_factor := scale_v\<rparr>) s
     else do {
       let m = assemble_transform env vzero vzero scale_v vones;
       let s0 = touch env i s;
       let c = volumes_data env s0 i;
       case m_mode s of
         Instance \<Rightarrow> do {
           let new_matrix = mat_mul env m (tc_scale_matrix (vc_instance c));
           let new_scale = (col_norm env new_matrix 0, col_norm env new_matrix 1,
                            col_norm env new_matrix 2);
           s1 \<leftarrow> (if \<not> is_local
                  then update_volume i
                         (\<lambda>v. v\<lparr>instance_offset := vadd (cache_dragging_center s0)
                            (mat_vec env m (vsub (tc_position (vc_instance c))
                                                 (cache_dragging_center s0)))\<rparr>) s0
                  else Some s0);
           update_volume i (\<lambda>v. v\<lparr>instance_scaling_factor := new_scale\<rparr>) s1
         }
       | Volume \<Rightarrow> do {
           let new_matrix = mat_mul env m (tc_scale_matrix (vc_volume c));
           let new_scale = (col_norm env new_matrix 0, col_norm env new_matrix 1,
                            col_norm env new_matrix 2);
           s1 \<leftarrow> (if \<not> is_local
                  then (let offset = mat_vec env m
                              (vsub (vadd (tc_position (vc_volume c)) (tc_position (vc_instance c)))
                                    (cache_dragging_center s0))
                        in update_volume i
                             (\<lambda>v. v\<lparr>volume_offset :=
                                vadd (vsub (cache_dragging_center s0) (tc_position (vc_instance c)))
                                     offset\<rparr>) s0)
                  else Some s0);
           update_volume i (\<lambda>v. v\<lparr>volume_scaling_factor := new_scale\<rparr>) s1
         }
     }
   }"

definition scale ::
  "('m, 'b) Env \<Rightarrow> ('m, 'b) Selection \<Rightarrow> Vec3d \<Rightarrow> bool \<Rightarrow> ('m, 'b) Selection option" where
  "scale env s scale_v is_local =
     (if \<not> m_valid s then Some s
      else do {
        s1 \<leftarrow> for_list (scale_step env scale_v is_local) (m_list s) s;
        s2 \<leftarrow> synchronize env SYNC_ROTATION_NONE s1;
        s3 \<leftarrow> ensure_on_bed env s2;
        Some (s3\<lparr>m_bounding_box_dirty := True\<rparr>)
      })"

definition mirror_step ::
  "bool \<Rightarrow> Axis \<Rightarrow> ('m, 'b) Selection \<Rightarrow> nat \<Rightarrow> ('m, 'b) Selection option" where
  "mirror_step single_full_instance axis s i =
     (if single_full_instance
      then update_volume i
             (\<lambda>v. v\<lparr>instance_mirror := vset (instance_mirror v) axis
                                         (- vget (instance_mirror v) axis)\<rparr>) s
      else if m_mode s = Volume
      then update_volume i
             (\<lambda>v. v\<lparr>volume_mirror := vset (volume_mirror v) axis
                                       (- vget (volume_mirror v) axis)\<rparr>) s
      else Some s)"

definition mirror :: "('m, 'b) Env \<Rightarrow> ('m, 'b) Selection \<Rightarrow> Axis \<Rightarrow> ('m, 'b) Selection option" where
  "mirror env s axis =
     (if \<not> m_valid s then Some s
      else do {
        single_full_instance \<leftarrow> is_single_full_instance s;
        s1 \<leftarrow> for_list (mirror_step single_full_instance axis) (m_list s) s;
        s2 \<leftarrow> synchronize env SYNC_ROTATION_NONE s1;
        Some (s2\<lparr>m_bounding_box_dirty := True\<rparr>)
      })"

text \<open>The two overloads of \<open>translate\<close> that take an object (and an instance) index.
  \<open>sel\<close> picks the volumes moved; in the second loop the object index of the selected
  volume shadows the argument.\<close>

definition translate_done_step ::
  "Vec3d \<Rightarrow> (GLVolume \<Rightarrow> bool) \<Rightarrow> ('m, 'b) Selection \<times> nat list \<Rightarrow> nat
     \<Rightarrow> (('m, 'b) Selection \<times> nat list) option" where
  "translate_done_step displacement skip st j = do {
     vs \<leftarrow> m_volumes (fst st);
     if length (snd st) = length vs then Some st
     else if j \<in> set (snd st) then Some st
     else do {
       v \<leftarrow> vector_at vs j;
       if skip v then Some st
       else Some ((fst st)\<lparr>m_volumes :=
                     Some (vs[j := v\<lparr>instance_offset := vadd (instance_offset v) displacement\<rparr>])\<rparr>,
                  set_insert j (snd st))
     }
   }"

definition translate_done_outer ::
  "Vec3d \<Rightarrow> (int \<Rightarrow> GLVolume \<Rightarrow> bool) \<Rightarrow> ('m, 'b) Selection \<times> nat list \<Rightarrow> nat
     \<Rightarrow> (('m, 'b) Selection \<times> nat list) option" where
  "translate_done_outer displacement skip st i = do {
     vs \<leftarrow> m_volumes (fst st);
     if length (snd st) = length vs then Some st
     else do {
       volume \<leftarrow> vector_at vs i;
       if object_idx volume \<ge> 1000 then Some st
       else for_list (translate_done_step displacement (skip (object_idx volume)))
              [0..<usize (length vs)] st
     }
   }"

definition translate_object ::
  "('m, 'b) Selection \<Rightarrow> nat \<Rightarrow> Vec3d \<Rightarrow> ('m, 'b) Selection option" where
  "translate_object s oidx displacement =
     (if \<not> m_valid s then Some s
      else do {
        s1 \<leftarrow> for_list (\<lambda>s i. do {
                 v \<leftarrow> volume_at s i;
                 if u32 (object_idx v) = oidx
                 then update_volume i
                        (\<lambda>v. v\<lparr>instance_offset := vadd (instance_offset v) displacement\<rparr>) s
                 else Some s }) (m_list s) s;
        st \<leftarrow> for_list (translate_done_outer displacement (\<lambda>obj v. object_idx v \<noteq> obj))
                (m_list s1) (s1, m_list s1);
        Some ((fst st)\<lparr>m_bounding_box_dirty := True\<rparr>)
      })"

definition translate_instance ::
  "('m, 'b) Selection \<Rightarrow> nat \<Rightarrow> nat \<Rightarrow> Vec3d \<Rightarrow> ('m, 'b) Selection option" where
  "translate_instance s oidx iidx displacement =
     (if \<not> m_valid s then Some s
      else do {
        s1 \<leftarrow> for_list (\<lambda>s i. do {
                 v \<leftarrow> volume_at s i;
                 if u32 (object_idx v) = oidx \<and> u32 (instance_idx v) = iidx
                 then update_volume i
                        (\<lambda>v. v\<lparr>instance_offset := vadd (instance_offset v) displacement\<rparr>) s
                 else Some s }) (m_list s) s;
        st \<leftarrow> for_list (translate_done_outer displacement
                          (\<lambda>obj v. object_idx v \<noteq> obj \<or> u32 (instance_idx v) \<noteq> iidx))
                (m_list s1) (s1, m_list s1);
        Some ((fst st)\<lparr>m_bounding_box_dirty := True\<rparr>)
      })"

subsection \<open>Deletion: \<^verbatim>\<open>Selection::erase\<close>\<close>

text \<open>
  Modelled from the spec: \<^verbatim>\<open>ItemType\<close>, \<^verbatim>\<open>ItemForDelete\<close> (type, object index,
  sub-object index) and its ordering are declared in the object list, outside this file,
  and the deletion itself is done there. \<open>erase\<close> returns the request it hands over.
  A \<^verbatim>\<open>std::set<ItemForDelete>\<close> is kept as a list without duplicates, ascending by
  type, object and sub-object (Section 4.5: "with de-duplication").
\<close>

datatype ItemType = itObject | itVolume | itInstance

type_synonym ItemForDelete = "ItemType \<times> int \<times> int"

datatype DeleteRequest =
    NoRequest
  | DeleteItem ItemType int int
  | DeleteItems "ItemForDelete list"

fun item_type_rank :: "ItemType \<Rightarrow> nat" where
  "item_type_rank itObject = 0"
| "item_type_rank itVolume = 1"
| "item_type_rank itInstance = 2"

definition item_key :: "ItemForDelete \<Rightarrow> nat \<times> int \<times> int" where
  "item_key it = (item_type_rank (fst it), fst (snd it), snd (snd it))"

definition items_insert :: "ItemForDelete \<Rightarrow> ItemForDelete list \<Rightarrow> ItemForDelete list" where
  "items_insert x xs = (if x \<in> set xs then xs else insort_key item_key x xs)"

text \<open>The first loop of the \<open>Mixed\<close> branch: \<open>fst acc\<close> is \<^verbatim>\<open>items_set\<close>, \<open>snd acc\<close>
  is \<^verbatim>\<open>volumes_in_obj\<close> (a missing key reads as 0).\<close>

fun erase_mixed_loop ::
  "GLVolume list \<Rightarrow> ModelObject list \<Rightarrow> (int \<times> int list) list \<Rightarrow> nat list
     \<Rightarrow> ItemForDelete list \<times> (int \<Rightarrow> int) \<Rightarrow> (ItemForDelete list \<times> (int \<Rightarrow> int)) option" where
  "erase_mixed_loop vs objs content [] acc = Some acc"
| "erase_mixed_loop vs objs content (i # is) acc = do {
     gl_vol \<leftarrow> vector_at vs i;
     let glv_obj_idx = object_idx gl_vol;
     model_object \<leftarrow> objects_at objs glv_obj_idx;
     if instances_size model_object = 1 then
       (if volumes_size model_object = 1
        then erase_mixed_loop vs objs content is
               (items_insert (itObject, glv_obj_idx, - 1) (fst acc), snd acc)
        else erase_mixed_loop vs objs content is
               (items_insert (itVolume, glv_obj_idx, volume_idx gl_vol) (fst acc),
                (snd acc)(glv_obj_idx := snd acc glv_obj_idx + 1)))
     else
       (let glv_ins_idx = instance_idx gl_vol in
        case find (\<lambda>obj_ins. fst obj_ins = glv_obj_idx \<and> glv_ins_idx \<in> set (snd obj_ins)) content of
          None \<Rightarrow> erase_mixed_loop vs objs content is acc
        | Some obj_ins \<Rightarrow>
            if length (snd obj_ins) = instances_size model_object
            then erase_mixed_loop vs objs content is
                   (items_insert (itVolume, glv_obj_idx, volume_idx gl_vol) (fst acc), snd acc)
            else erase_mixed_loop vs objs content is
                   (items_insert (itInstance, glv_obj_idx, glv_ins_idx) (fst acc), snd acc))
   }"

text \<open>The final pass of the \<open>Mixed\<close> branch over \<^verbatim>\<open>items_set\<close>.\<close>

fun erase_collapse ::
  "ModelObject list \<Rightarrow> (int \<Rightarrow> int) \<Rightarrow> ItemForDelete list \<Rightarrow> ItemForDelete list option" where
  "erase_collapse objs volumes_in_obj [] = Some []"
| "erase_collapse objs volumes_in_obj (i # is) = do {
     rest \<leftarrow> erase_collapse objs volumes_in_obj is;
     if fst i = itVolume then do {
       let vol_in_obj_cnt = volumes_in_obj (fst (snd i));
       model_object \<leftarrow> objects_at objs (fst (snd i));
       if vol_in_obj_cnt = int (volumes_size model_object) then
         (if snd (snd i) = vol_in_obj_cnt - 1
          then Some ((itObject, fst (snd i), 0) # rest)
          else Some rest)
       else Some (i # rest)
     }
     else Some (i # rest)
   }"

fun collect_parts :: "GLVolume list \<Rightarrow> nat list \<Rightarrow> (int \<times> int) list \<Rightarrow> (int \<times> int) list option" where
  "collect_parts vs [] acc = Some acc"
| "collect_parts vs (i # is) acc = do {
     v \<leftarrow> vector_at vs i;
     collect_parts vs is
       (if volume_idx v \<ge> 0 then set_insert (object_idx v, volume_idx v) acc else acc)
   }"

definition erase :: "('m, 'b) Selection \<Rightarrow> DeleteRequest option" where
  "erase s =
     (if \<not> m_valid s then Some NoRequest
      else if is_single_full_object s then Some (DeleteItem itObject (get_object_idx s) 0)
      else if is_multiple_full_object s
      then Some (DeleteItems (map (\<lambda>e. (itObject, fst e, 0)) (cache_content s)))
      else if is_multiple_full_instance s
      then Some (DeleteItems
             (concat (map (\<lambda>e. map (\<lambda>inst. (itInstance, fst e, inst)) (snd e)) (cache_content s))))
      else do {
        sfi \<leftarrow> is_single_full_instance s;
        if sfi then Some (DeleteItem itInstance (get_object_idx s) (get_instance_idx s))
        else if is_mixed s then do {
          vs \<leftarrow> (if m_list s = [] then Some [] else m_volumes s);
          objs \<leftarrow> (if m_list s = [] then Some [] else m_model s);
          acc \<leftarrow> erase_mixed_loop vs objs (cache_content s) (m_list s) ([], \<lambda>_. 0);
          items \<leftarrow> erase_collapse objs (snd acc) (fst acc);
          Some (DeleteItems items)
        }
        else do {
          vs \<leftarrow> (if m_list s = [] then Some [] else m_volumes s);
          volumes_idxs \<leftarrow> collect_parts vs (m_list s) [];
          Some (DeleteItems (map (\<lambda>v. (itVolume, fst v, snd v)) volumes_idxs))
        }
      })"

section \<open>Invariants and harness\<close>

text \<open>
  The invariant of the index set: every index of \<open>m_list\<close> is inside the volume list
  (\<open>in_range\<close>), and a volume has its \<open>selected\<close> flag set exactly when its index is in
  \<open>m_list\<close> (\<open>flags_match\<close>).
\<close>

definition in_range_on :: "GLVolume list option \<Rightarrow> nat list \<Rightarrow> bool" where
  "in_range_on volumes lst =
     (case volumes of None \<Rightarrow> lst = [] | Some vs \<Rightarrow> \<forall>i \<in> set lst. i < length vs)"

definition flags_on :: "GLVolume list option \<Rightarrow> nat list \<Rightarrow> bool" where
  "flags_on volumes lst =
     (case volumes of None \<Rightarrow> True
      | Some vs \<Rightarrow> \<forall>i < length vs. selected (vs ! i) = (i \<in> set lst))"

definition in_range :: "('m, 'b) Selection \<Rightarrow> bool" where
  "in_range s = in_range_on (m_volumes s) (m_list s)"

definition flags_match :: "('m, 'b) Selection \<Rightarrow> bool" where
  "flags_match s = flags_on (m_volumes s) (m_list s)"

definition flags_consistent :: "('m, 'b) Selection \<Rightarrow> bool" where
  "flags_consistent s = (in_range s \<and> flags_match s)"

text \<open>
  Before \<open>volumes_changed\<close> the caller has replaced the volume list, and \<open>m_list\<close> still
  holds the old indices. The invariant then reads through the index map: a volume of the
  new list is flagged exactly when it is the image of a selected old index.
\<close>

definition remapped :: "nat list \<Rightarrow> nat list \<Rightarrow> nat set" where
  "remapped mp lst = {usize (mp ! idx) | idx. idx \<in> set lst \<and> mp ! idx \<noteq> size_t_max}"

definition flags_remapped :: "('m, 'b) Selection \<Rightarrow> nat list \<Rightarrow> bool" where
  "flags_remapped s mp =
     (case m_volumes s of None \<Rightarrow> True
      | Some vs \<Rightarrow> \<forall>k < length vs. selected (vs ! k) = (k \<in> remapped mp (m_list s)))"

text \<open>The selection mutators as data, to speak about any of them.\<close>

datatype Mutation =
    Add nat bool | Remove nat
  | Add_object nat bool | Remove_object nat
  | Add_instance nat nat bool | Remove_instance nat nat
  | Add_volume nat nat int bool | Remove_volume nat nat
  | Add_all | Clear | Volumes_changed "nat list"

fun apply_mutation ::
  "('m, 'b) Env \<Rightarrow> ('m, 'b) Selection \<Rightarrow> Mutation \<Rightarrow> ('m, 'b) Selection option" where
  "apply_mutation env s (Add i e) = add s i e"
| "apply_mutation env s (Remove i) = remove s i"
| "apply_mutation env s (Add_object obj e) = add_object s obj e"
| "apply_mutation env s (Remove_object obj) = remove_object s obj"
| "apply_mutation env s (Add_instance obj inst e) = add_instance s obj inst e"
| "apply_mutation env s (Remove_instance obj inst) = remove_instance s obj inst"
| "apply_mutation env s (Add_volume obj part inst e) = add_volume s obj part inst e"
| "apply_mutation env s (Remove_volume obj part) = remove_volume s obj part"
| "apply_mutation env s Add_all = add_all s"
| "apply_mutation env s Clear = clear s"
| "apply_mutation env s (Volumes_changed mp) = volumes_changed env s mp"

fun mutation_pre :: "('m, 'b) Selection \<Rightarrow> Mutation \<Rightarrow> bool" where
  "mutation_pre s (Volumes_changed mp) = flags_remapped s mp"
| "mutation_pre s m = flags_consistent s"

text \<open>Two volume lists that differ in the \<open>disabled\<close> flags only.\<close>

definition undisabled :: "GLVolume list \<Rightarrow> GLVolume list" where
  "undisabled vs = map (\<lambda>v. v\<lparr>disabled := False\<rparr>) vs"


text \<open>What an operation of the selection never writes: the validity flag, the model and
  the identity of each volume.\<close>

definition ident :: "GLVolume \<Rightarrow> int \<times> int \<times> int \<times> bool \<times> bool" where
  "ident v = (object_idx v, instance_idx v, volume_idx v, is_wipe_tower v, is_modifier v)"

definition idents_of :: "('m, 'b) Selection \<Rightarrow> (int \<times> int \<times> int \<times> bool \<times> bool) list option" where
  "idents_of s = map_option (map ident) (m_volumes s)"

definition same_binding :: "('m, 'b) Selection \<Rightarrow> ('m, 'b) Selection \<Rightarrow> bool" where
  "same_binding s s' = (m_valid s' = m_valid s \<and> m_model s' = m_model s \<and> idents_of s' = idents_of s)"

definition stable :: "(GLVolume \<Rightarrow> bool) \<Rightarrow> bool" where
  "stable P = (\<forall>v v'. ident v = ident v' \<longrightarrow> P v = P v')"

definition objects_known :: "ModelObject list \<Rightarrow> GLVolume list \<Rightarrow> nat list \<Rightarrow> bool" where
  "objects_known objs vs lst = (\<forall>i \<in> set lst. i < length vs \<and> objects_at objs (object_idx (vs ! i)) \<noteq> None)"

text \<open>What \<open>mirror\<close> does to a selected volume in \<open>Volume\<close> mode.\<close>

definition flip_volume_mirror :: "Axis \<Rightarrow> GLVolume \<Rightarrow> GLVolume" where
  "flip_volume_mirror axis v =
     v\<lparr>volume_mirror := vset (volume_mirror v) axis (- vget (volume_mirror v) axis)\<rparr>"


text \<open>The fields of a volume that the synchronisation of parts never writes.\<close>

definition part_frame :: "GLVolume \<Rightarrow> GLVolume" where
  "part_frame v = v\<lparr>volume_offset := vzero, volume_rotation := vzero,
                    volume_scaling_factor := vzero, volume_mirror := vzero\<rparr>"


text \<open>What \<^verbatim>\<open>_synchronize_unselected_volumes\<close> writes to a volume \<open>v\<close> from the selected
  volume: its four setter calls.\<close>

definition copy_part :: "GLVolume \<Rightarrow> GLVolume \<Rightarrow> GLVolume" where
  "copy_part volume v =
     v\<lparr>volume_offset := volume_offset volume, volume_rotation := volume_rotation volume,
       volume_scaling_factor := volume_scaling_factor volume,
       volume_mirror := volume_mirror volume\<rparr>"


text \<open>What \<^verbatim>\<open>_synchronize_unselected_instances\<close> writes to a volume \<open>v\<close> when the rotation
  is not synchronised, and the volumes \<open>j\<close> that its inner loop may write for the selected
  volume \<open>i\<close>.\<close>

definition copy_instance_scaling_mirror :: "GLVolume \<Rightarrow> GLVolume \<Rightarrow> GLVolume" where
  "copy_instance_scaling_mirror volume v =
     v\<lparr>instance_scaling_factor := instance_scaling_factor volume,
       instance_mirror := instance_mirror volume\<rparr>"





section \<open>Concrete scenes\<close>

text \<open>A build with \<^verbatim>\<open>NDEBUG\<close> and with the synchronisation compiled in; the geometry is
  not evaluated in the scenes below, so matrices and boxes are of type \<open>unit\<close>.\<close>

definition release_env :: "(unit, unit) Env" where
  "release_env =
     \<lparr>NDEBUG = True, DISABLE_INSTANCES_SYNCH = False,
      isApprox = (\<lambda>a b. a = b), is_approx = (\<lambda>a b. \<bar>a - b\<bar> < 1 / 10 ^ 4),
      identity = (), assemble_transform = (\<lambda>_ _ _ _. ()), extract_euler_angles = (\<lambda>_. vzero),
      get_matrix = (\<lambda>_. ()), mat_mul = (\<lambda>_ _. ()), mat_inverse = (\<lambda>_. ()),
      mat_vec = (\<lambda>_ v. v), mat_coeff = (\<lambda>_ _ _. 1), col_norm = (\<lambda>_ _. 1),
      rotate_angle_axis = (\<lambda>_ _. ()), angle_axis_of_diff = (\<lambda>_ _. (0, (1, 0, 0))),
      transformed_convex_hull_bounding_box = (\<lambda>_. ()), bb_empty = (), bb_merge = (\<lambda>_ _. ()),
      bb_center = (\<lambda>_. vzero), bb_min_z = (\<lambda>_. 0)\<rparr>"

definition debug_env :: "(unit, unit) Env" where
  "debug_env = release_env\<lparr>NDEBUG := False\<rparr>"

text \<open>A part \<open>pidx\<close> of instance \<open>iidx\<close> of object \<open>oidx\<close>, unselected, with unit transforms.\<close>

definition mk_volume :: "int \<Rightarrow> int \<Rightarrow> int \<Rightarrow> GLVolume" where
  "mk_volume oidx pidx iidx =
     \<lparr>object_idx = oidx, volume_idx = pidx, instance_idx = iidx,
      selected = False, disabled = False, is_modifier = False, is_wipe_tower = False,
      volume_offset = vzero, volume_rotation = vzero, volume_scaling_factor = vones,
      volume_mirror = vones, instance_offset = vzero, instance_rotation = vzero,
      instance_scaling_factor = vones, instance_mirror = vones\<rparr>"

text \<open>The state built by the constructor \<^verbatim>\<open>Selection::Selection()\<close>.\<close>

definition new_selection :: "(unit, unit) Selection" where
  "new_selection =
     \<lparr>m_volumes = None, m_model = None, m_mode = Instance, m_type = Empty, m_valid = False,
      m_list = [], cache_volumes_data = Map.empty, cache_content = [],
      cache_dragging_center = vzero, m_bounding_box = (), m_bounding_box_dirty = True,
      sidebar_cache_resets = 0\<rparr>"

definition bind_selection :: "GLVolume list \<Rightarrow> ModelObject list \<Rightarrow> (unit, unit) Selection" where
  "bind_selection vs objs = set_model (set_volumes new_selection (Some vs)) (Some objs)"

text \<open>One object with three parts and one instance.\<close>

definition vols3 :: "GLVolume list" where
  "vols3 = [mk_volume 0 0 0, mk_volume 0 1 0, mk_volume 0 2 0]"

definition model3 :: "ModelObject list" where
  "model3 = [\<lparr>volumes_size = 3, instances_size = 1\<rparr>]"

definition scene3 :: "(unit, unit) Selection" where
  "scene3 = bind_selection vols3 model3"


text \<open>Two objects of one part each, and a wipe tower between them (object index 1000).\<close>

definition wipe_tower_volume :: GLVolume where
  "wipe_tower_volume = (mk_volume 1000 0 0)\<lparr>is_wipe_tower := True\<rparr>"

definition vols_wt :: "GLVolume list" where
  "vols_wt = [mk_volume 0 0 0, wipe_tower_volume, mk_volume 1 0 0]"

definition model2 :: "ModelObject list" where
  "model2 = [\<lparr>volumes_size = 1, instances_size = 1\<rparr>, \<lparr>volumes_size = 1, instances_size = 1\<rparr>]"

definition scene_wt :: "(unit, unit) Selection" where
  "scene_wt = bind_selection vols_wt model2"

text \<open>One object with two parts and an auxiliary volume (part index -1), as for SLA
  supports; the selections are built by the public operations.\<close>

definition vols_sla :: "GLVolume list" where
  "vols_sla = [mk_volume 0 0 0, mk_volume 0 1 0, mk_volume 0 (- 1) 0]"

definition model_sla :: "ModelObject list" where
  "model_sla = [\<lparr>volumes_size = 2, instances_size = 1\<rparr>]"

definition scene_sla :: "(unit, unit) Selection" where
  "scene_sla = bind_selection vols_sla model_sla"

definition sla_single_volume :: "(unit, unit) Selection" where
  "sla_single_volume = the (add_volume scene_sla 0 0 0 False)"

definition sla_with_support :: "(unit, unit) Selection" where
  "sla_with_support =
     the (add scene_sla 2 False \<bind> (\<lambda>s. remove_volume s 0 1) \<bind> (\<lambda>s. add_volume s 0 0 0 False))"

text \<open>A modifier with a negative part index, and the same scene with the part index 1.\<close>

definition vols_negmod :: "GLVolume list" where
  "vols_negmod = [mk_volume 0 0 0, (mk_volume 0 (- 1) 0)\<lparr>is_modifier := True\<rparr>]"

definition scene_negmod :: "(unit, unit) Selection" where
  "scene_negmod = bind_selection vols_negmod model_sla"

definition vols_mod :: "GLVolume list" where
  "vols_mod = [mk_volume 0 0 0, (mk_volume 0 1 0)\<lparr>is_modifier := True\<rparr>]"

definition scene_mod :: "(unit, unit) Selection" where
  "scene_mod = bind_selection vols_mod model_sla"






text \<open>A selection with a volume list and no model.\<close>

definition volumes_only :: "(unit, unit) Selection" where
  "volumes_only = set_volumes new_selection (Some vols3)"

section \<open>Properties\<close>

subsection \<open>The size of the volume list as an unsigned int\<close>

lemma usize_le: "usize n \<le> n"
  by (simp add: usize_def)

lemma usize_id: "n < 2 ^ 32 \<Longrightarrow> usize n = n"
  by (simp add: usize_def)

lemma usize_lessD: "i < usize n \<Longrightarrow> i < n"
  using usize_le [of n] by simp

lemma not_usize_leD: "\<not> usize n \<le> i \<Longrightarrow> i < n"
  using usize_le [of n] by simp

text \<open>
  C9. \<open>get_volume\<close> is total on every selection that satisfies the class invariant of the
  validity flag: it returns the null pointer exactly when the selection is invalid or the
  index is not below the size of the volume list converted to unsigned int, which is the
  size itself when the list has fewer than \<open>2 ^ 32\<close> volumes, and the volume stored at the
  index otherwise. It is a function of the state and returns no new state.
\<close>

theorem get_volume_total:
  assumes "bound_inv s"
  shows "\<exists>r. get_volume s vidx = Some r
           \<and> (r = None \<longleftrightarrow> (\<not> m_valid s \<or> usize (length (the (m_volumes s))) \<le> vidx))
           \<and> (length (the (m_volumes s)) < 2 ^ 32 \<longrightarrow>
                (r = None \<longleftrightarrow> (\<not> m_valid s \<or> length (the (m_volumes s)) \<le> vidx)))
           \<and> (r \<noteq> None \<longrightarrow> r = Some (the (m_volumes s) ! vidx))"
  using assms
  by (cases "m_volumes s") (auto simp: get_volume_def bound_inv_def usize_id)

subsection \<open>Containers and loops\<close>

lemma set_set_insert [simp]: "set (set_insert x xs) = insert x (set xs)"
  by (auto simp: set_insert_def set_insort_key)

lemma sorted_set_insert: "sorted xs \<Longrightarrow> sorted (set_insert x xs)"
  by (simp add: set_insert_def sorted_insort)

lemma distinct_set_insert: "distinct xs \<Longrightarrow> distinct (set_insert x xs)"
  by (simp add: set_insert_def distinct_insort)

lemma set_set_erase [simp]: "set (set_erase x xs) = set xs - {x}"
  by (auto simp: set_erase_def)

lemma vector_at_Some [simp]: "vector_at xs i = Some v \<longleftrightarrow> i < length xs \<and> v = xs ! i"
  by (auto simp: vector_at_def)

lemma vector_at_in [simp]: "i < length xs \<Longrightarrow> vector_at xs i = Some (xs ! i)"
  by (simp add: vector_at_def)

lemma for_volumes_inv:
  assumes "for_volumes P f is s = Some s'" and "I s"
    and "\<And>s i s'. I s \<Longrightarrow> f s i = Some s' \<Longrightarrow> I s'"
  shows "I s'"
  using assms(1,2)
proof (induction "is" arbitrary: s)
  case Nil
  then show ?case by simp
next
  case (Cons i "is")
  then show ?case
    by (auto split: bind_splits if_splits intro: assms(3))
qed

lemma priv_add_volume_flags:
  "flags_match s \<Longrightarrow> priv_add_volume s i = Some s' \<Longrightarrow> flags_match s'"
  by (auto simp: priv_add_volume_def flags_match_def flags_on_def nth_list_update split: bind_splits if_splits)

lemma priv_remove_volume_flags:
  "flags_match s \<Longrightarrow> priv_remove_volume s i = Some s' \<Longrightarrow> flags_match s'"
  by (auto simp: priv_remove_volume_def flags_match_def flags_on_def nth_list_update split: bind_splits if_splits)

lemma undisabled_length: "undisabled vs' = undisabled vs \<Longrightarrow> length vs' = length vs"
  unfolding undisabled_def by (rule map_eq_imp_length_eq)

lemma undisabled_nth:
  assumes "undisabled vs' = undisabled vs" "k < length vs"
  shows "(vs' ! k)\<lparr>disabled := False\<rparr> = (vs ! k)\<lparr>disabled := False\<rparr>"
proof -
  have "length vs' = length vs" using assms(1) by (rule undisabled_length)
  moreover have "undisabled vs' ! k = undisabled vs ! k" using assms(1) by simp
  ultimately show ?thesis using assms(2) by (simp add: undisabled_def)
qed

lemma undisabled_fields:
  assumes "undisabled vs' = undisabled vs" "k < length vs"
  shows "selected (vs' ! k) = selected (vs ! k)"
    and "object_idx (vs' ! k) = object_idx (vs ! k)"
    and "instance_idx (vs' ! k) = instance_idx (vs ! k)"
    and "volume_idx (vs' ! k) = volume_idx (vs ! k)"
    and "is_wipe_tower (vs' ! k) = is_wipe_tower (vs ! k)"
    and "is_modifier (vs' ! k) = is_modifier (vs ! k)"
proof -
  have e: "(vs' ! k)\<lparr>disabled := False\<rparr> = (vs ! k)\<lparr>disabled := False\<rparr>"
    using assms by (rule undisabled_nth)
  show "selected (vs' ! k) = selected (vs ! k)"
    using arg_cong [OF e, of selected] by simp
  show "object_idx (vs' ! k) = object_idx (vs ! k)"
    using arg_cong [OF e, of object_idx] by simp
  show "instance_idx (vs' ! k) = instance_idx (vs ! k)"
    using arg_cong [OF e, of instance_idx] by simp
  show "volume_idx (vs' ! k) = volume_idx (vs ! k)"
    using arg_cong [OF e, of volume_idx] by simp
  show "is_wipe_tower (vs' ! k) = is_wipe_tower (vs ! k)"
    using arg_cong [OF e, of is_wipe_tower] by simp
  show "is_modifier (vs' ! k) = is_modifier (vs ! k)"
    using arg_cong [OF e, of is_modifier] by simp
qed

lemma update_type_frame:
  assumes "update_type s = Some s'"
  shows "m_list s' = m_list s"
    and "\<exists>vs vs'. m_volumes s = Some vs \<and> m_volumes s' = Some vs' \<and> undisabled vs' = undisabled vs"
    and "m_valid s' = m_valid s" and "m_model s' = m_model s"
  using assms by (auto simp: update_type_def Let_def undisabled_def split: bind_splits)

lemma update_type_flags:
  assumes "flags_match s" "update_type s = Some s'"
  shows "flags_match s'"
proof -
  from update_type_frame [OF assms(2)] obtain vs vs' where
    l: "m_list s' = m_list s" and v: "m_volumes s = Some vs" "m_volumes s' = Some vs'"
    and u: "undisabled vs' = undisabled vs" by blast
  show ?thesis using assms(1) l v undisabled_length [OF u] undisabled_fields(1) [OF u]
    by (simp add: flags_match_def flags_on_def)
qed

lemma build_content_in_range:
  "build_content vs is c = Some c' \<Longrightarrow> \<forall>i \<in> set is. i < length vs"
  by (induction "is" arbitrary: c) (auto split: bind_splits)

lemma update_type_in_range:
  "update_type s = Some s' \<Longrightarrow> in_range s'"
  by (auto simp: update_type_def Let_def in_range_def in_range_on_def split: bind_splits dest: build_content_in_range)

lemma deselect_all_spec:
  "deselect_all vs is = Some vs' \<Longrightarrow>
     length vs' = length vs \<and> (\<forall>k < length vs. vs' ! k = (if k \<in> set is then (vs ! k)\<lparr>selected := False\<rparr> else vs ! k))"
proof (induction "is" arbitrary: vs)
  case Nil
  then show ?case by simp
next
  case (Cons i "is")
  then show ?case
    by (auto split: bind_splits simp: nth_list_update)
qed

lemma clear_flags:
  assumes "flags_match s" "clear s = Some s'"
  shows "flags_match s'"
proof (cases "m_valid s")
  case False
  then show ?thesis using assms by (simp add: clear_def)
next
  case True
  then obtain vs vs' s1 where v: "m_volumes s = Some vs" and d: "deselect_all vs (m_list s) = Some vs'"
    and u: "update_type (s\<lparr>m_volumes := Some vs', m_list := []\<rparr>) = Some s1"
    and s': "s' = s1\<lparr>m_bounding_box_dirty := True, sidebar_cache_resets := Suc (sidebar_cache_resets s1)\<rparr>"
    using assms(2) by (auto simp: clear_def split: bind_splits)
  have "flags_match (s\<lparr>m_volumes := Some vs', m_list := []\<rparr>)"
    using assms(1) v deselect_all_spec [OF d] by (auto simp: flags_match_def flags_on_def)
  then have "flags_match s1" using u by (rule update_type_flags)
  then show ?thesis using s' by (simp add: flags_match_def)
qed

lemma for_volumes_add_flags:
  "flags_match s \<Longrightarrow> for_volumes P priv_add_volume is s = Some s' \<Longrightarrow> flags_match s'"
  by (erule for_volumes_inv [rotated]) (auto intro: priv_add_volume_flags)

lemma for_volumes_remove_flags:
  "flags_match s \<Longrightarrow> for_volumes P priv_remove_volume is s = Some s' \<Longrightarrow> flags_match s'"
  by (erule for_volumes_inv [rotated]) (auto intro: priv_remove_volume_flags)

lemma flags_match_mode [simp]: "flags_match (s\<lparr>m_mode := m\<rparr>) = flags_match s"
  by (simp add: flags_match_def)

lemma flags_match_dirty [simp]: "flags_match (s\<lparr>m_bounding_box_dirty := m\<rparr>) = flags_match s"
  by (simp add: flags_match_def)

lemma in_range_dirty [simp]: "in_range (s\<lparr>m_bounding_box_dirty := m\<rparr>) = in_range s"
  by (simp add: in_range_def)

lemma finish_consistent:
  "flags_match s \<Longrightarrow> update_type s = Some s' \<Longrightarrow> flags_consistent (s'\<lparr>m_bounding_box_dirty := True\<rparr>)"
  by (simp add: flags_consistent_def update_type_flags update_type_in_range)

lemma clear_if_flags:
  "flags_match s \<Longrightarrow> clear_if b s = Some s' \<Longrightarrow> flags_match s'"
  by (auto simp: clear_if_def split: if_splits intro: clear_flags)

lemma add_switch_flags:
  "flags_match s \<Longrightarrow> add_switch s v i = Some s' \<Longrightarrow> flags_match s'"
  by (auto simp: add_switch_def priv_add_instance_def all_indices_def
      split: EMode.splits if_splits bind_splits
      elim: priv_add_volume_flags for_volumes_add_flags)

lemma add_select_mode_flags [simp]: "flags_match (add_select_mode s v i) = flags_match s"
  by (simp add: add_select_mode_def)

lemma add_SomeE:
  assumes "add s i e = Some s'"
  obtains (same) "s' = s"
  | (run) vs s1 s3 s4 where "m_valid s" "m_volumes s = Some vs" "i < length vs"
      "clear_if (add_needs_reset s (vs ! i) e) s = Some s1"
      "add_switch (add_select_mode s1 (vs ! i) i) (vs ! i) i = Some s3"
      "update_type s3 = Some s4" "s' = s4\<lparr>m_bounding_box_dirty := True\<rparr>"
  using assms unfolding add_def Let_def
  by (auto split: if_splits bind_splits dest: not_usize_leD)

lemma add_consistent:
  assumes "flags_consistent s" "add s i e = Some s'"
  shows "flags_consistent s'"
  using assms(2)
proof (cases rule: add_SomeE)
  case same
  then show ?thesis using assms(1) by simp
next
  case (run vs s1 s3 s4)
  have "flags_match s" using assms(1) by (simp add: flags_consistent_def)
  then have "flags_match s1" using run(4) by (rule clear_if_flags)
  then have "flags_match (add_select_mode s1 (vs ! i) i)" by simp
  then have "flags_match s3" using run(5) by (rule add_switch_flags)
  then show ?thesis using run(6,7) by (simp add: finish_consistent)
qed

lemma remove_SomeE:
  assumes "remove s i = Some s'"
  obtains (same) "s' = s"
  | (run) vs s1 s2 where "m_valid s" "m_volumes s = Some vs" "i < length vs"
      "(case m_mode s of Volume \<Rightarrow> priv_remove_volume s i
         | Instance \<Rightarrow> priv_remove_instance s (u32 (object_idx (vs ! i)))
                         (u32 (instance_idx (vs ! i)))) = Some s1"
      "update_type s1 = Some s2" "s' = s2\<lparr>m_bounding_box_dirty := True\<rparr>"
  using assms unfolding remove_def Let_def
  by (auto split: if_splits bind_splits dest: not_usize_leD)

lemma priv_remove_instance_flags:
  "flags_match s \<Longrightarrow> priv_remove_instance s obj inst = Some s' \<Longrightarrow> flags_match s'"
  by (auto simp: priv_remove_instance_def split: bind_splits elim: for_volumes_remove_flags)

lemma priv_remove_object_flags:
  "flags_match s \<Longrightarrow> priv_remove_object s obj = Some s' \<Longrightarrow> flags_match s'"
  by (auto simp: priv_remove_object_def split: bind_splits elim: for_volumes_remove_flags)

lemma priv_add_instance_flags:
  "flags_match s \<Longrightarrow> priv_add_instance s obj inst = Some s' \<Longrightarrow> flags_match s'"
  by (auto simp: priv_add_instance_def split: bind_splits elim: for_volumes_add_flags)

lemma priv_add_object_flags:
  "flags_match s \<Longrightarrow> priv_add_object s obj = Some s' \<Longrightarrow> flags_match s'"
  by (auto simp: priv_add_object_def split: bind_splits elim: for_volumes_add_flags)

lemma remove_consistent:
  assumes "flags_consistent s" "remove s i = Some s'"
  shows "flags_consistent s'"
  using assms(2)
proof (cases rule: remove_SomeE)
  case same
  then show ?thesis using assms(1) by simp
next
  case (run vs s1 s2)
  have "flags_match s" using assms(1) by (simp add: flags_consistent_def)
  then have "flags_match s1" using run(4)
    by (auto split: EMode.splits elim: priv_remove_volume_flags priv_remove_instance_flags)
  then show ?thesis using run(5,6) by (simp add: finish_consistent)
qed

lemma add_object_consistent:
  assumes "flags_consistent s" "add_object s obj e = Some s'"
  shows "flags_consistent s'"
proof (cases "m_valid s")
  case False
  then show ?thesis using assms by (simp add: add_object_def)
next
  case True
  then obtain s1 s2 s3 where r: "clear_if e s = Some s1"
    "priv_add_object (s1\<lparr>m_mode := Instance\<rparr>) obj = Some s2"
    "update_type s2 = Some s3" "s' = s3\<lparr>m_bounding_box_dirty := True\<rparr>"
    using assms(2) by (auto simp: add_object_def split: bind_splits)
  have "flags_match s" using assms(1) by (simp add: flags_consistent_def)
  then have "flags_match s1" using r(1) by (rule clear_if_flags)
  then have "flags_match (s1\<lparr>m_mode := Instance\<rparr>)" by simp
  then have "flags_match s2" using r(2) by (rule priv_add_object_flags)
  then show ?thesis using r(3,4) by (simp add: finish_consistent)
qed

lemma remove_object_consistent:
  assumes "flags_consistent s" "remove_object s obj = Some s'"
  shows "flags_consistent s'"
proof (cases "m_valid s")
  case False
  then show ?thesis using assms by (simp add: remove_object_def)
next
  case True
  then obtain s1 s2 where r: "priv_remove_object s obj = Some s1"
    "update_type s1 = Some s2" "s' = s2\<lparr>m_bounding_box_dirty := True\<rparr>"
    using assms(2) by (auto simp: remove_object_def split: bind_splits)
  have "flags_match s" using assms(1) by (simp add: flags_consistent_def)
  then have "flags_match s1" using r(1) by (rule priv_remove_object_flags)
  then show ?thesis using r(2,3) by (simp add: finish_consistent)
qed

lemma add_instance_consistent:
  assumes "flags_consistent s" "add_instance s obj inst e = Some s'"
  shows "flags_consistent s'"
proof (cases "m_valid s")
  case False
  then show ?thesis using assms by (simp add: add_instance_def)
next
  case True
  then obtain s1 s2 s3 where r: "clear_if e s = Some s1"
    "priv_add_instance (s1\<lparr>m_mode := Instance\<rparr>) obj inst = Some s2"
    "update_type s2 = Some s3" "s' = s3\<lparr>m_bounding_box_dirty := True\<rparr>"
    using assms(2) by (auto simp: add_instance_def split: bind_splits)
  have "flags_match s" using assms(1) by (simp add: flags_consistent_def)
  then have "flags_match s1" using r(1) by (rule clear_if_flags)
  then have "flags_match (s1\<lparr>m_mode := Instance\<rparr>)" by simp
  then have "flags_match s2" using r(2) by (rule priv_add_instance_flags)
  then show ?thesis using r(3,4) by (simp add: finish_consistent)
qed

lemma remove_instance_consistent:
  assumes "flags_consistent s" "remove_instance s obj inst = Some s'"
  shows "flags_consistent s'"
proof (cases "m_valid s")
  case False
  then show ?thesis using assms by (simp add: remove_instance_def)
next
  case True
  then obtain s1 s2 where r: "priv_remove_instance s obj inst = Some s1"
    "update_type s1 = Some s2" "s' = s2\<lparr>m_bounding_box_dirty := True\<rparr>"
    using assms(2) by (auto simp: remove_instance_def split: bind_splits)
  have "flags_match s" using assms(1) by (simp add: flags_consistent_def)
  then have "flags_match s1" using r(1) by (rule priv_remove_instance_flags)
  then show ?thesis using r(2,3) by (simp add: finish_consistent)
qed

lemma add_volume_consistent:
  assumes "flags_consistent s" "add_volume s obj part inst e = Some s'"
  shows "flags_consistent s'"
proof (cases "m_valid s")
  case False
  then show ?thesis using assms by (simp add: add_volume_def)
next
  case True
  then obtain s1 "is" P s3 s4 where r: "clear_if e s = Some s1"
    "for_volumes P priv_add_volume is (s1\<lparr>m_mode := Volume\<rparr>) = Some s3"
    "update_type s3 = Some s4" "s' = s4\<lparr>m_bounding_box_dirty := True\<rparr>"
    using assms(2) by (auto simp: add_volume_def Let_def split: bind_splits)
  have "flags_match s" using assms(1) by (simp add: flags_consistent_def)
  then have "flags_match s1" using r(1) by (rule clear_if_flags)
  then have "flags_match (s1\<lparr>m_mode := Volume\<rparr>)" by simp
  then have "flags_match s3" using r(2) by (rule for_volumes_add_flags)
  then show ?thesis using r(3,4) by (simp add: finish_consistent)
qed

lemma remove_volume_consistent:
  assumes "flags_consistent s" "remove_volume s obj part = Some s'"
  shows "flags_consistent s'"
proof (cases "m_valid s")
  case False
  then show ?thesis using assms by (simp add: remove_volume_def)
next
  case True
  then obtain "is" P s1 s2 where r: "for_volumes P priv_remove_volume is s = Some s1"
    "update_type s1 = Some s2" "s' = s2\<lparr>m_bounding_box_dirty := True\<rparr>"
    using assms(2) by (auto simp: remove_volume_def split: bind_splits)
  have "flags_match s" using assms(1) by (simp add: flags_consistent_def)
  then have "flags_match s1" using r(1) by (rule for_volumes_remove_flags)
  then show ?thesis using r(2,3) by (simp add: finish_consistent)
qed

lemma add_all_consistent:
  assumes "flags_consistent s" "add_all s = Some s'"
  shows "flags_consistent s'"
proof (cases "m_valid s")
  case False
  then show ?thesis using assms by (simp add: add_all_def)
next
  case True
  then obtain s1 "is" s2 s3 where r: "clear (s\<lparr>m_mode := Instance\<rparr>) = Some s1"
    "for_volumes (\<lambda>v. \<not> is_wipe_tower v) priv_add_volume is s1 = Some s2"
    "update_type s2 = Some s3" "s' = s3\<lparr>m_bounding_box_dirty := True\<rparr>"
    using assms(2) by (auto simp: add_all_def split: bind_splits)
  have "flags_match (s\<lparr>m_mode := Instance\<rparr>)" using assms(1) by (simp add: flags_consistent_def)
  then have "flags_match s1" using r(1) by (rule clear_flags)
  then have "flags_match s2" using r(2) by (rule for_volumes_add_flags)
  then show ?thesis using r(3,4) by (simp add: finish_consistent)
qed

lemma clear_in_range: "m_valid s \<Longrightarrow> clear s = Some s' \<Longrightarrow> in_range s'"
  by (auto simp: clear_def in_range_def split: bind_splits dest!: update_type_in_range)

lemma clear_consistent:
  assumes "flags_consistent s" "clear s = Some s'"
  shows "flags_consistent s'"
proof (cases "m_valid s")
  case False
  then show ?thesis using assms by (simp add: clear_def)
next
  case True
  have "flags_match s" using assms(1) by (simp add: flags_consistent_def)
  then have "flags_match s'" using assms(2) by (rule clear_flags)
  then show ?thesis using clear_in_range [OF True assms(2)] by (simp add: flags_consistent_def)
qed

lemma remapped_Nil [simp]: "remapped mp [] = {}"
  by (simp add: remapped_def)

lemma remapped_Cons [simp]:
  "remapped mp (idx # is) =
     (if mp ! idx \<noteq> size_t_max then insert (usize (mp ! idx)) (remapped mp is) else remapped mp is)"
  by (auto simp: remapped_def)

lemma remap_loop_set:
  "remap_loop mode volumes mp is acc = Some r \<Longrightarrow>
     set (fst r) = set (fst acc) \<union> remapped mp is"
proof (induction "is" arbitrary: acc)
  case Nil
  then show ?case by simp
next
  case (Cons idx "is")
  from Cons.prems have e: "idx < length mp" by (simp split: bind_splits)
  show ?case
  proof (cases "mp ! idx = size_t_max")
    case True
    then have "remap_loop mode volumes mp is acc = Some r"
      using Cons.prems e by simp
    from Cons.IH [OF this] show ?thesis using True by simp
  next
    case False
    then obtain acc' where a: "remap_loop mode volumes mp is acc' = Some r"
      and f: "fst acc' = set_insert (usize (mp ! idx)) (fst acc)"
      using Cons.prems e by (auto simp: Let_def split: bind_splits if_splits)
    from Cons.IH [OF a] show ?thesis using False f by simp
  qed
qed

lemma add_model_instances_flags:
  "flags_match s \<Longrightarrow> add_model_instances env s mis = Some s' \<Longrightarrow> flags_match s'"
  by (auto simp: add_model_instances_def Let_def split: if_splits bind_splits
      elim: for_volumes_add_flags)

lemma volumes_changed_consistent:
  assumes "flags_remapped s mp" "volumes_changed env s mp = Some s'"
  shows "flags_consistent s'"
proof -
  from assms(2) obtain r s2 s3 where r: "remap_loop (m_mode s) (m_volumes s) mp (m_list s) ([], []) = Some r"
    and s2: "add_model_instances env (s\<lparr>m_list := fst r\<rparr>) (snd r) = Some s2"
    and u: "update_type s2 = Some s3" "s' = s3\<lparr>m_bounding_box_dirty := True\<rparr>"
    by (auto simp: volumes_changed_def split: bind_splits if_splits)
  have "set (fst r) = remapped mp (m_list s)" using remap_loop_set [OF r] by simp
  then have "flags_match (s\<lparr>m_list := fst r\<rparr>)"
    using assms(1) by (simp add: flags_match_def flags_on_def flags_remapped_def split: option.splits)
  then have "flags_match s2" using s2 by (rule add_model_instances_flags)
  then show ?thesis using u by (simp add: finish_consistent)
qed

text \<open>
  C1. Every selection mutation keeps the invariant of the index set: if it holds before
  \<open>add\<close>, \<open>remove\<close>, \<open>add_object\<close>, \<open>remove_object\<close>, \<open>add_instance\<close>,
  \<open>remove_instance\<close>, \<open>add_volume\<close>, \<open>remove_volume\<close>, \<open>add_all\<close> or \<open>clear\<close> (for
  \<open>volumes_changed\<close>: if the flags of the new list are those of the remapped selection),
  then in the state returned every index of the set refers to a volume whose \<open>selected\<close>
  flag is true and every volume outside the set has the flag false.
\<close>

theorem selected_flag_invariant:
  assumes "mutation_pre s m" and "apply_mutation env s m = Some s'"
  shows "flags_consistent s'"
proof (cases m)
  case (Add i e)
  then show ?thesis using assms by (auto intro: add_consistent)
next
  case (Remove i)
  then show ?thesis using assms by (auto intro: remove_consistent)
next
  case (Add_object obj e)
  then show ?thesis using assms by (auto intro: add_object_consistent)
next
  case (Remove_object obj)
  then show ?thesis using assms by (auto intro: remove_object_consistent)
next
  case (Add_instance obj inst e)
  then show ?thesis using assms by (auto intro: add_instance_consistent)
next
  case (Remove_instance obj inst)
  then show ?thesis using assms by (auto intro: remove_instance_consistent)
next
  case (Add_volume obj part inst e)
  then show ?thesis using assms by (auto intro: add_volume_consistent)
next
  case (Remove_volume obj part)
  then show ?thesis using assms by (auto intro: remove_volume_consistent)
next
  case Add_all
  then show ?thesis using assms by (auto intro: add_all_consistent)
next
  case Clear
  then show ?thesis using assms by (auto intro: clear_consistent)
next
  case (Volumes_changed mp)
  then show ?thesis using assms by (auto intro: volumes_changed_consistent)
qed


lemmas scene_defs = scene3_def bind_selection_def set_model_def set_volumes_def
  update_valid_def new_selection_def vols3_def model3_def mk_volume_def

lemmas eval_defs = add_def Let_def add_needs_reset_def sel_is_wipe_tower_def sel_is_modifier_def
  clear_if_def clear_def update_type_def classify_def add_select_mode_def contains_volume_def
  add_switch_def priv_add_instance_def all_indices_def priv_add_volume_def set_insert_def
  u32_def usize_def umul_def uadd_def get_object_idx_def get_instance_idx_def vector_at_def
  objects_at_def upt_rec is_empty_def

theorem selected_flag_invariant_witness:
  "mutation_pre scene3 (Add 1 False)
   \<and> apply_mutation release_env scene3 (Add 1 False) \<noteq> None
   \<and> flags_consistent (the (apply_mutation release_env scene3 (Add 1 False)))"
proof -
  have p: "mutation_pre scene3 (Add 1 False)"
    by (simp add: scene_defs flags_consistent_def in_range_def in_range_on_def flags_match_def
        flags_on_def less_Suc_eq)
  have "add scene3 1 False \<noteq> None"
    by (simp add: scene_defs eval_defs)
  then obtain s' where r: "apply_mutation release_env scene3 (Add 1 False) = Some s'"
    by auto
  from selected_flag_invariant [OF p r] p r show ?thesis by simp
qed

theorem get_volume_total_witness:
  "bound_inv scene3
   \<and> length (the (m_volumes scene3)) < 2 ^ 32
   \<and> get_volume scene3 1 = Some (Some (mk_volume 0 1 0))
   \<and> get_volume scene3 3 = Some None"
  using get_volume_total [of scene3 1] get_volume_total [of scene3 3]
  by (simp add: scene_defs bound_inv_def get_volume_def usize_def)

subsection \<open>What the mutators leave unchanged\<close>

lemma same_binding_refl [simp]: "same_binding s s"
  by (simp add: same_binding_def)

lemma same_binding_trans: "same_binding s s1 \<Longrightarrow> same_binding s1 s2 \<Longrightarrow> same_binding s s2"
  by (simp add: same_binding_def)

lemma ident_selected [simp]: "ident (v\<lparr>selected := b\<rparr>) = ident v"
  by (simp add: ident_def)

lemma ident_disabled [simp]: "ident (v\<lparr>disabled := b\<rparr>) = ident v"
  by (simp add: ident_def)

lemma map_ident_update: "i < length vs \<Longrightarrow> ident v = ident (vs ! i) \<Longrightarrow> map ident (vs[i := v]) = map ident vs"
  by (simp add: map_update list_update_same_conv)

lemma priv_add_volume_binding: "priv_add_volume s i = Some s' \<Longrightarrow> same_binding s s'"
  by (auto simp: priv_add_volume_def same_binding_def idents_of_def map_ident_update split: bind_splits)

lemma priv_remove_volume_binding: "priv_remove_volume s i = Some s' \<Longrightarrow> same_binding s s'"
  by (auto simp: priv_remove_volume_def same_binding_def idents_of_def map_ident_update split: bind_splits if_splits)

lemma for_volumes_binding:
  assumes "for_volumes P f is s = Some s'" "\<And>s i s'. f s i = Some s' \<Longrightarrow> same_binding s s'"
  shows "same_binding s s'"
  using assms(1)
  by (rule for_volumes_inv [where I = "same_binding s"]) (auto intro: same_binding_trans assms(2))

lemma update_type_binding: "update_type s = Some s' \<Longrightarrow> same_binding s s'"
  by (auto simp: update_type_def Let_def same_binding_def idents_of_def split: bind_splits)

lemma deselect_all_idents: "deselect_all vs is = Some vs' \<Longrightarrow> map ident vs' = map ident vs"
  by (induction "is" arbitrary: vs) (auto split: bind_splits simp: map_ident_update)

lemma clear_binding: "clear s = Some s' \<Longrightarrow> same_binding s s'"
  by (auto simp: clear_def same_binding_def idents_of_def split: bind_splits if_splits
      dest!: update_type_binding deselect_all_idents)

lemma clear_if_binding: "clear_if b s = Some s' \<Longrightarrow> same_binding s s'"
  by (auto simp: clear_if_def split: if_splits dest: clear_binding)

lemma stable_update:
  assumes "stable P"
  shows "P ((vs[i := (vs ! i)\<lparr>selected := b\<rparr>]) ! k) = P (vs ! k)"
proof -
  have "ident ((vs[i := (vs ! i)\<lparr>selected := b\<rparr>]) ! k) = ident (vs ! k)"
    by (cases "k = i"; cases "i < length vs") (simp_all add: list_update_beyond)
  then show ?thesis using assms unfolding stable_def by blast
qed

lemma for_volumes_add_set:
  assumes "for_volumes P priv_add_volume is s = Some s'" "m_volumes s = Some vs" "stable P"
  shows "set (m_list s') = set (m_list s) \<union> {i \<in> set is. P (vs ! i)}"
  using assms(1,2)
proof (induction "is" arbitrary: s vs)
  case Nil
  then show ?case by simp
next
  case (Cons i "is")
  from Cons.prems obtain s1 where i: "i < length vs"
    and s1: "(if P (vs ! i) then priv_add_volume s i else Some s) = Some s1"
    and r: "for_volumes P priv_add_volume is s1 = Some s'"
    by (auto split: bind_splits)
  show ?case
  proof (cases "P (vs ! i)")
    case True
    then have s1': "s1 = s\<lparr>m_list := set_insert i (m_list s),
                         m_volumes := Some (vs[i := (vs ! i)\<lparr>selected := True\<rparr>])\<rparr>"
      using s1 i Cons.prems(2) by (simp add: priv_add_volume_def)
    then have "m_volumes s1 = Some (vs[i := (vs ! i)\<lparr>selected := True\<rparr>])" by simp
    from Cons.IH [OF r this] show ?thesis
      using True s1' by (auto simp: stable_update [OF assms(3)])
  next
    case False
    then have "s1 = s" using s1 by simp
    with Cons.IH [OF r [unfolded this] Cons.prems(2)] show ?thesis using False by auto
  qed
qed

lemma priv_add_volume_sorted:
  "priv_add_volume s i = Some s' \<Longrightarrow> sorted (m_list s) \<and> distinct (m_list s)
     \<Longrightarrow> sorted (m_list s') \<and> distinct (m_list s')"
  by (auto simp: priv_add_volume_def sorted_set_insert distinct_set_insert split: bind_splits)

lemma for_volumes_add_sorted:
  assumes "for_volumes P priv_add_volume is s = Some s'" "sorted (m_list s) \<and> distinct (m_list s)"
  shows "sorted (m_list s') \<and> distinct (m_list s')"
  using assms
  by (rule for_volumes_inv [where I = "\<lambda>s. sorted (m_list s) \<and> distinct (m_list s)"])
     (auto dest: priv_add_volume_sorted)

lemma priv_add_volume_mode: "priv_add_volume s i = Some s' \<Longrightarrow> m_mode s' = m_mode s"
  by (auto simp: priv_add_volume_def split: bind_splits)

lemma for_volumes_add_mode:
  assumes "for_volumes P priv_add_volume is s = Some s'"
  shows "m_mode s' = m_mode s"
  using assms
  by (rule for_volumes_inv [where I = "\<lambda>x. m_mode x = m_mode s"]) (auto dest: priv_add_volume_mode)

lemma classify_mode:
  "classify valid model mode vs lst content = Some r \<Longrightarrow> fst (snd r) = mode \<or> fst (snd r) = Instance"
  unfolding classify_def Let_def
  by (auto split: if_splits bind_splits)

lemma update_type_mode:
  "update_type s = Some s' \<Longrightarrow> m_mode s = Instance \<Longrightarrow> m_mode s' = Instance"
  by (auto simp: update_type_def Let_def split: bind_splits dest: classify_mode)

lemma update_type_list: "update_type s = Some s' \<Longrightarrow> m_list s' = m_list s"
  by (auto simp: update_type_def Let_def split: bind_splits)

lemma clear_result:
  assumes "m_valid s" "clear s = Some s'"
  shows "m_list s' = []" and "m_mode s = Instance \<Longrightarrow> m_mode s' = Instance"
  using assms
  by (auto simp: clear_def split: bind_splits dest: update_type_list update_type_mode)

lemma idents_nth:
  assumes "idents_of s' = idents_of s" "m_volumes s = Some vs" "m_volumes s' = Some vs'"
  shows "length vs' = length vs" and "k < length vs \<Longrightarrow> ident (vs' ! k) = ident (vs ! k)"
proof -
  have e: "map ident vs' = map ident vs" using assms by (simp add: idents_of_def)
  then show l: "length vs' = length vs" by (rule map_eq_imp_length_eq)
  show "k < length vs \<Longrightarrow> ident (vs' ! k) = ident (vs ! k)"
    using arg_cong [OF e, of "\<lambda>xs. xs ! k"] l by simp
qed

lemma same_binding_volumes:
  assumes "same_binding s s'" "m_volumes s = Some vs"
  shows "\<exists>vs'. m_volumes s' = Some vs' \<and> length vs' = length vs
           \<and> (\<forall>k < length vs. ident (vs' ! k) = ident (vs ! k))"
proof -
  from assms obtain vs' where v: "m_volumes s' = Some vs'"
    by (auto simp: same_binding_def idents_of_def)
  have i: "idents_of s' = idents_of s" using assms(1) by (simp add: same_binding_def)
  show ?thesis
    using v idents_nth(1) [OF i assms(2) v] idents_nth(2) [OF i assms(2) v] by simp
qed

lemma stable_not_wipe_tower: "stable (\<lambda>v. \<not> is_wipe_tower v)"
  by (auto simp: stable_def ident_def)

lemma add_all_list:
  assumes "m_valid s" "m_volumes s = Some vs" "add_all s = Some s'"
  shows "m_list s' = filter (\<lambda>i. \<not> is_wipe_tower (vs ! i)) [0..<usize (length vs)] \<and> m_mode s' = Instance"
proof -
  from assms(1,3) obtain s1 "is" s2 s3 where c: "clear (s\<lparr>m_mode := Instance\<rparr>) = Some s1"
    and i: "all_indices s1 = Some is"
    and f: "for_volumes (\<lambda>v. \<not> is_wipe_tower v) priv_add_volume is s1 = Some s2"
    and u: "update_type s2 = Some s3" and s': "s' = s3\<lparr>m_bounding_box_dirty := True\<rparr>"
    by (auto simp: add_all_def split: bind_splits)
  have v: "m_valid (s\<lparr>m_mode := Instance\<rparr>)" using assms(1) by simp
  have l1: "m_list s1 = []" and m1: "m_mode s1 = Instance"
    using clear_result [OF v c] by simp_all
  have "same_binding (s\<lparr>m_mode := Instance\<rparr>) s1" using c by (rule clear_binding)
  moreover have "m_volumes (s\<lparr>m_mode := Instance\<rparr>) = Some vs" using assms(2) by simp
  ultimately obtain vs1 where v1: "m_volumes s1 = Some vs1" "length vs1 = length vs"
    and id: "\<And>k. k < length vs \<Longrightarrow> ident (vs1 ! k) = ident (vs ! k)"
    using same_binding_volumes by blast
  have "is": "is = [0..<usize (length vs)]" using i v1 by (simp add: all_indices_def)
  have wt: "\<And>k. k < usize (length vs) \<Longrightarrow> is_wipe_tower (vs1 ! k) = is_wipe_tower (vs ! k)"
    using id by (simp add: ident_def usize_lessD)
  have "set (m_list s2) = {k \<in> set is. \<not> is_wipe_tower (vs1 ! k)}"
    using for_volumes_add_set [OF f v1(1) stable_not_wipe_tower] l1 by simp
  then have "set (m_list s2) = set (filter (\<lambda>i. \<not> is_wipe_tower (vs ! i)) [0..<usize (length vs)])"
    using "is" wt by auto
  moreover have "sorted (m_list s2) \<and> distinct (m_list s2)"
    using for_volumes_add_sorted [OF f] l1 by simp
  moreover have "sorted (filter (\<lambda>i. \<not> is_wipe_tower (vs ! i)) [0..<usize (length vs)])"
    by (simp add: sorted_wrt_filter)
  moreover have "distinct (filter (\<lambda>i. \<not> is_wipe_tower (vs ! i)) [0..<usize (length vs)])"
    by simp
  ultimately have "m_list s2 = filter (\<lambda>i. \<not> is_wipe_tower (vs ! i)) [0..<usize (length vs)]"
    by (metis sorted_distinct_set_unique)
  moreover have "m_mode s2 = Instance" using for_volumes_add_mode [OF f] m1 by simp
  ultimately show ?thesis using u s' by (simp add: update_type_list update_type_mode)
qed

lemma deselect_all_total:
  "\<forall>i \<in> set is. i < length vs \<Longrightarrow> \<exists>vs'. deselect_all vs is = Some vs'"
  by (induction "is" arbitrary: vs) auto

lemma for_volumes_add_total:
  "m_volumes s = Some vs \<Longrightarrow> \<forall>i \<in> set is. i < length vs
     \<Longrightarrow> \<exists>s'. for_volumes P priv_add_volume is s = Some s'"
proof (induction "is" arbitrary: s vs)
  case Nil
  then show ?case by simp
next
  case (Cons i "is")
  show ?case
  proof (cases "P (vs ! i)")
    case True
    let ?s1 = "s\<lparr>m_list := set_insert i (m_list s),
                  m_volumes := Some (vs[i := (vs ! i)\<lparr>selected := True\<rparr>])\<rparr>"
    have "\<exists>s'. for_volumes P priv_add_volume is ?s1 = Some s'"
      by (rule Cons.IH [where vs = "vs[i := (vs ! i)\<lparr>selected := True\<rparr>]"])
         (use Cons.prems in auto)
    moreover have "priv_add_volume s i = Some ?s1"
      using Cons.prems by (simp add: priv_add_volume_def)
    ultimately show ?thesis using True Cons.prems by simp
  next
    case False
    have "\<exists>s'. for_volumes P priv_add_volume is s = Some s'"
      by (rule Cons.IH [where vs = vs]) (use Cons.prems in auto)
    then show ?thesis using False Cons.prems by simp
  qed
qed

lemma content_insert_keys [simp]:
  "fst ` set (content_insert obj inst c) = insert obj (fst ` set c)"
  by (induction obj inst c rule: content_insert.induct) auto

lemma build_content_keys:
  "\<forall>i \<in> set is. i < length vs \<Longrightarrow>
     \<exists>c'. build_content vs is c = Some c'
           \<and> fst ` set c' = fst ` set c \<union> (\<lambda>i. object_idx (vs ! i)) ` set is"
proof (induction "is" arbitrary: c)
  case Nil
  then show ?case by simp
next
  case (Cons i "is")
  from Cons.prems have "\<forall>i \<in> set is. i < length vs" and i: "i < length vs" by auto
  from Cons.IH [OF this(1), of "content_insert (object_idx (vs ! i)) (instance_idx (vs ! i)) c"]
  show ?case using i by auto
qed

lemma sels_cntr_loop_total:
  "\<forall>k \<in> fst ` set c. objects_at objs k \<noteq> None \<Longrightarrow> \<exists>m. sels_cntr_loop objs c n = Some m"
  by (induction c arbitrary: n) auto

lemma classify_total:
  assumes "objects_known objs vs lst" "fst ` set content = (\<lambda>i. object_idx (vs ! i)) ` set lst"
  shows "\<exists>r. classify valid (Some objs) mode vs lst content = Some r"
proof (cases "\<not> valid \<or> lst = []")
  case True
  then show ?thesis by (auto simp: classify_def)
next
  case False
  then have ne: "lst \<noteq> []" and v: valid by auto
  then have h: "hd lst \<in> set lst" by simp
  then have h1: "hd lst < length vs" and h2: "objects_at objs (object_idx (vs ! hd lst)) \<noteq> None"
    using assms(1) by (auto simp: objects_known_def)
  have cne: "content \<noteq> []" using assms(2) ne by auto
  then have "fst (hd content) \<in> fst ` set content" by simp
  then have k: "objects_at objs (fst (hd content)) \<noteq> None"
    using assms by (auto simp: objects_known_def)
  have "\<forall>k \<in> fst ` set content. objects_at objs k \<noteq> None"
    using assms by (auto simp: objects_known_def)
  from sels_cntr_loop_total [OF this, of 0] obtain m where m: "sels_cntr_loop objs content 0 = Some m"
    by blast
  show ?thesis
    using v ne h1 h2 k m unfolding classify_def Let_def
    by (auto split: if_splits)
qed

lemma update_type_total:
  assumes "m_volumes s = Some vs" "m_model s = Some objs" "objects_known objs vs (m_list s)"
  shows "\<exists>s'. update_type s = Some s'"
proof -
  have "\<forall>i \<in> set (m_list s). i < length vs" using assms(3) by (simp add: objects_known_def)
  from build_content_keys [OF this, of "[]"] obtain c where
    c: "build_content vs (m_list s) [] = Some c"
    and k: "fst ` set c = (\<lambda>i. object_idx (vs ! i)) ` set (m_list s)" by auto
  from classify_total [OF assms(3) k] obtain r where
    "classify (m_valid s) (Some objs) (m_mode s) vs (m_list s) c = Some r" by blast
  then show ?thesis using assms(1,2) c by (simp add: update_type_def Let_def)
qed

lemma clear_total:
  assumes "m_volumes s = Some vs" "m_model s = Some objs" "\<forall>i \<in> set (m_list s). i < length vs"
  shows "\<exists>s'. clear s = Some s'"
proof (cases "m_valid s")
  case False
  then show ?thesis by (simp add: clear_def)
next
  case True
  from deselect_all_total [OF assms(3)] obtain vs' where d: "deselect_all vs (m_list s) = Some vs'"
    by blast
  have "\<exists>s'. update_type (s\<lparr>m_volumes := Some vs', m_list := []\<rparr>) = Some s'"
    by (rule update_type_total [where vs = vs' and objs = objs])
       (use assms in \<open>simp_all add: objects_known_def\<close>)
  then show ?thesis using True assms(1) d by (auto simp: clear_def)
qed

lemma add_all_total:
  assumes "m_valid s" "m_volumes s = Some vs" "m_model s = Some objs"
    and "\<forall>i \<in> set (m_list s). i < length vs"
    and "\<forall>i < length vs. \<not> is_wipe_tower (vs ! i) \<longrightarrow> objects_at objs (object_idx (vs ! i)) \<noteq> None"
  shows "\<exists>s'. add_all s = Some s'"
proof -
  let ?s0 = "s\<lparr>m_mode := Instance\<rparr>"
  have "\<exists>s1. clear ?s0 = Some s1"
    by (rule clear_total [where vs = vs and objs = objs]) (use assms in simp_all)
  then obtain s1 where c: "clear ?s0 = Some s1" by blast
  have b1: "same_binding ?s0 s1" using c by (rule clear_binding)
  have l1: "m_list s1 = []" using clear_result(1) [OF _ c] assms(1) by simp
  from same_binding_volumes [OF b1, of vs] assms(2) obtain vs1 where
    v1: "m_volumes s1 = Some vs1" "length vs1 = length vs"
    and id1: "\<forall>k < length vs. ident (vs1 ! k) = ident (vs ! k)" by auto
  have "\<exists>s2. for_volumes (\<lambda>v. \<not> is_wipe_tower v) priv_add_volume [0..<usize (length vs1)] s1 = Some s2"
    by (rule for_volumes_add_total [OF v1(1)]) (simp add: usize_lessD)
  then obtain s2 where f: "for_volumes (\<lambda>v. \<not> is_wipe_tower v) priv_add_volume [0..<usize (length vs1)] s1 = Some s2"
    by blast
  have l2: "set (m_list s2) = {k \<in> set [0..<usize (length vs1)]. \<not> is_wipe_tower (vs1 ! k)}"
    using for_volumes_add_set [OF f v1(1) stable_not_wipe_tower] l1 by simp
  have b2: "same_binding s1 s2"
    using f by (rule for_volumes_binding) (rule priv_add_volume_binding)
  from same_binding_volumes [OF b2 v1(1)] obtain vs2 where
    v2: "m_volumes s2 = Some vs2" "length vs2 = length vs1"
    and id2: "\<forall>k < length vs1. ident (vs2 ! k) = ident (vs1 ! k)" by auto
  have m2: "m_model s2 = Some objs"
    using b1 b2 assms(3) by (simp add: same_binding_def)
  have "objects_known objs vs2 (m_list s2)"
    unfolding objects_known_def
  proof
    fix i assume "i \<in> set (m_list s2)"
    then have i: "i < length vs" and w: "\<not> is_wipe_tower (vs1 ! i)"
      using l2 v1(2) by (auto dest: usize_lessD)
    have "ident (vs2 ! i) = ident (vs ! i)" using id1 id2 i v1(2) by simp
    then have "object_idx (vs2 ! i) = object_idx (vs ! i)" by (simp add: ident_def)
    moreover have "\<not> is_wipe_tower (vs ! i)" using w id1 i by (auto simp: ident_def)
    ultimately show "i < length vs2 \<and> objects_at objs (object_idx (vs2 ! i)) \<noteq> None"
      using assms(5) i v1(2) v2(2) by simp
  qed
  from update_type_total [OF v2(1) m2 this] obtain s3 where "update_type s2 = Some s3" by blast
  then show ?thesis
    using assms(1) c v1 f by (simp add: add_all_def all_indices_def)
qed

text \<open>
  C8. On a valid selection, \<open>clear\<close> followed by \<open>add_all\<close> leaves exactly the indices of
  the volumes that are not the wipe tower in the index set, in ascending order, and the
  mode \<open>Instance\<close>. The loop of \<open>add_all\<close> runs to the size of the volume list converted to
  unsigned int; for a list of fewer than \<open>2 ^ 32\<close> volumes these are all its indices. The
  two calls return when the selected indices are inside the volume list and every volume
  that is not a wipe tower belongs to an object of the model.
\<close>

theorem clear_then_add_all:
  assumes "m_valid s" and "m_volumes s = Some vs"
  shows "(\<forall>s1 s2. clear s = Some s1 \<and> add_all s1 = Some s2 \<longrightarrow>
            m_list s2 = filter (\<lambda>i. \<not> is_wipe_tower (vs ! i)) [0..<usize (length vs)]
            \<and> (length vs < 2 ^ 32 \<longrightarrow>
                 m_list s2 = filter (\<lambda>i. \<not> is_wipe_tower (vs ! i)) [0..<length vs])
            \<and> m_mode s2 = Instance)
       \<and> (m_model s = Some objs \<and> in_range s
            \<and> (\<forall>i < length vs. \<not> is_wipe_tower (vs ! i)
                   \<longrightarrow> objects_at objs (object_idx (vs ! i)) \<noteq> None)
          \<longrightarrow> (\<exists>s1 s2. clear s = Some s1 \<and> add_all s1 = Some s2))"
proof (intro conjI allI impI)
  fix s1 s2
  assume a: "clear s = Some s1 \<and> add_all s1 = Some s2"
  then have b: "same_binding s s1" by (simp add: clear_binding)
  from same_binding_volumes [OF b assms(2)] obtain vs1 where
    v1: "m_volumes s1 = Some vs1" "length vs1 = length vs"
    and id1: "\<forall>k < length vs. ident (vs1 ! k) = ident (vs ! k)" by auto
  have "m_valid s1" using b assms(1) by (simp add: same_binding_def)
  from add_all_list [OF this v1(1)] a
  have r: "m_list s2 = filter (\<lambda>i. \<not> is_wipe_tower (vs1 ! i)) [0..<usize (length vs1)]"
    and m: "m_mode s2 = Instance" by simp_all
  have "filter (\<lambda>i. \<not> is_wipe_tower (vs1 ! i)) [0..<usize (length vs1)]
        = filter (\<lambda>i. \<not> is_wipe_tower (vs ! i)) [0..<usize (length vs)]"
    unfolding v1(2) by (rule filter_cong) (use id1 in \<open>auto simp: ident_def dest: usize_lessD\<close>)
  then show l: "m_list s2 = filter (\<lambda>i. \<not> is_wipe_tower (vs ! i)) [0..<usize (length vs)]"
    using r by simp
  show "m_mode s2 = Instance" by (rule m)
  assume "length vs < 2 ^ 32"
  then show "m_list s2 = filter (\<lambda>i. \<not> is_wipe_tower (vs ! i)) [0..<length vs]"
    using l by (simp add: usize_id)
next
  assume h: "m_model s = Some objs \<and> in_range s
            \<and> (\<forall>i < length vs. \<not> is_wipe_tower (vs ! i)
                   \<longrightarrow> objects_at objs (object_idx (vs ! i)) \<noteq> None)"
  then have r: "\<forall>i \<in> set (m_list s). i < length vs"
    using assms(2) by (simp add: in_range_def in_range_on_def)
  from clear_total [OF assms(2) _ r] h obtain s1 where c: "clear s = Some s1" by blast
  have b: "same_binding s s1" using c by (rule clear_binding)
  from same_binding_volumes [OF b assms(2)] obtain vs1 where
    v1: "m_volumes s1 = Some vs1" "length vs1 = length vs"
    and id1: "\<forall>k < length vs. ident (vs1 ! k) = ident (vs ! k)" by auto
  have "\<exists>s2. add_all s1 = Some s2"
  proof (rule add_all_total [where vs = vs1 and objs = objs])
    show "m_valid s1" using b assms(1) by (simp add: same_binding_def)
    show "m_volumes s1 = Some vs1" by (rule v1)
    show "m_model s1 = Some objs" using b h by (simp add: same_binding_def)
    show "\<forall>i \<in> set (m_list s1). i < length vs1"
      using clear_result(1) [OF assms(1) c] by simp
    show "\<forall>i < length vs1. \<not> is_wipe_tower (vs1 ! i) \<longrightarrow> objects_at objs (object_idx (vs1 ! i)) \<noteq> None"
    proof (intro allI impI)
      fix i assume i: "i < length vs1" and w: "\<not> is_wipe_tower (vs1 ! i)"
      then have "ident (vs1 ! i) = ident (vs ! i)" using id1 v1(2) by simp
      then have "object_idx (vs1 ! i) = object_idx (vs ! i)" "is_wipe_tower (vs ! i) = is_wipe_tower (vs1 ! i)"
        by (simp_all add: ident_def)
      then show "objects_at objs (object_idx (vs1 ! i)) \<noteq> None"
        using h i w v1(2) by simp
    qed
  qed
  then show "\<exists>s1 s2. clear s = Some s1 \<and> add_all s1 = Some s2" using c by blast
qed

lemmas scene_wt_defs = scene_wt_def bind_selection_def set_model_def set_volumes_def
  update_valid_def new_selection_def vols_wt_def model2_def mk_volume_def wipe_tower_volume_def

theorem clear_then_add_all_witness:
  "m_valid scene_wt \<and> m_volumes scene_wt = Some vols_wt \<and> length vols_wt < 2 ^ 32
   \<and> (\<exists>s1 s2. clear scene_wt = Some s1 \<and> add_all s1 = Some s2
         \<and> m_list s2 = [0, 2] \<and> m_mode s2 = Instance)"
proof -
  have v: "m_valid scene_wt" and vs: "m_volumes scene_wt = Some vols_wt"
    and n: "length vols_wt < 2 ^ 32"
    by (simp_all add: scene_wt_defs)
  have h: "m_model scene_wt = Some model2 \<and> in_range scene_wt
      \<and> (\<forall>i < length vols_wt. \<not> is_wipe_tower (vols_wt ! i)
             \<longrightarrow> objects_at model2 (object_idx (vols_wt ! i)) \<noteq> None)"
    by (simp add: scene_wt_defs in_range_def in_range_on_def objects_at_def less_Suc_eq)
  have f: "filter (\<lambda>i. \<not> is_wipe_tower (vols_wt ! i)) [0..<length vols_wt] = [0, 2]"
    by (simp add: scene_wt_defs upt_rec)
  from clear_then_add_all [OF v vs, of model2] h f v vs n show ?thesis
    by (metis (no_types, lifting))
qed

subsection \<open>\<open>add\<close> and the auxiliary volumes\<close>

lemma stable_same_instance:
  "stable (\<lambda>v. u32 (object_idx v) = a \<and> u32 (instance_idx v) = b)"
  by (auto simp: stable_def ident_def)

lemma add_instance_branch:
  assumes "priv_add_instance s a b = Some s'" "m_volumes s = Some vs"
  shows "set (m_list s') = set (m_list s)
           \<union> {k. k < usize (length vs) \<and> u32 (object_idx (vs ! k)) = a \<and> u32 (instance_idx (vs ! k)) = b}"
    and "m_mode s' = m_mode s"
proof -
  from assms have f: "for_volumes (\<lambda>v. u32 (object_idx v) = a \<and> u32 (instance_idx v) = b)
      priv_add_volume [0..<usize (length vs)] s = Some s'"
    by (simp add: priv_add_instance_def all_indices_def)
  show "m_mode s' = m_mode s" using f by (rule for_volumes_add_mode)
  show "set (m_list s') = set (m_list s)
           \<union> {k. k < usize (length vs) \<and> u32 (object_idx (vs ! k)) = a \<and> u32 (instance_idx (vs ! k)) = b}"
    using for_volumes_add_set [OF f assms(2) stable_same_instance] by auto
qed

text \<open>
  C10 (amended). The guard on the part index sits in the \<open>Volume\<close> case of the switch of
  \<open>add\<close> only. Let \<open>add\<close> be called on a valid selection with an index below the size of
  the volume list (as an unsigned int) whose volume has a negative part index. If the wipe
  tower is selected and the volume is a wipe tower, \<open>add\<close> returns at once and the selection
  is unchanged. Otherwise: a modifier is never inserted, the index set returned is the one
  left by the reset (empty after a reset, the prior set otherwise); a volume that is not a
  modifier, is already selected in \<open>Volume\<close> mode and needs no reset leaves the index set
  unchanged; a volume that is not a modifier and is not in the set left by the reset (a
  reset is done, or the volume is not selected) switches the mode to \<open>Instance\<close> and is
  inserted: the index set returned is the one left by the reset together with the indices,
  below the size of the list, of all the volumes of its object and instance.
\<close>

theorem add_volume_mode_negative_part:
  assumes "add s i e = Some s'" and "m_valid s" and "m_volumes s = Some vs"
    and "i < usize (length vs)" and "volume_idx (vs ! i) < 0"
  shows "(sel_is_wipe_tower s \<and> is_wipe_tower (vs ! i) \<longrightarrow> s' = s)
    \<and> (\<not> (sel_is_wipe_tower s \<and> is_wipe_tower (vs ! i)) \<and> is_modifier (vs ! i) \<longrightarrow>
          m_list s' = (if add_needs_reset s (vs ! i) e then [] else m_list s))
    \<and> (\<not> (sel_is_wipe_tower s \<and> is_wipe_tower (vs ! i)) \<and> \<not> is_modifier (vs ! i)
          \<and> m_mode s = Volume \<and> i \<in> set (m_list s) \<and> \<not> add_needs_reset s (vs ! i) e \<longrightarrow>
          m_list s' = m_list s)
    \<and> (\<not> (sel_is_wipe_tower s \<and> is_wipe_tower (vs ! i)) \<and> \<not> is_modifier (vs ! i)
          \<and> (add_needs_reset s (vs ! i) e \<or> i \<notin> set (m_list s)) \<longrightarrow>
          m_mode s' = Instance \<and> i \<in> set (m_list s')
          \<and> set (m_list s') =
               (if add_needs_reset s (vs ! i) e then {} else set (m_list s))
               \<union> {k. k < usize (length vs)
                      \<and> u32 (object_idx (vs ! k)) = u32 (object_idx (vs ! i))
                      \<and> u32 (instance_idx (vs ! k)) = u32 (instance_idx (vs ! i))})"
proof (cases "sel_is_wipe_tower s \<and> is_wipe_tower (vs ! i)")
  case True
  then show ?thesis using assms by (simp add: add_def)
next
  case False
  let ?v = "vs ! i"
  let ?r = "add_needs_reset s ?v e"
  from False assms(1-4) obtain s1 s3 s4 where
    c: "clear_if ?r s = Some s1"
    and sw: "add_switch (add_select_mode s1 ?v i) ?v i = Some s3"
    and u: "update_type s3 = Some s4" and s': "s' = s4\<lparr>m_bounding_box_dirty := True\<rparr>"
    by (auto simp: add_def Let_def split: bind_splits)
  have l1: "m_list s1 = (if ?r then [] else m_list s)"
    using c assms(2) clear_result(1) [of s s1] by (auto simp: clear_if_def split: if_splits)
  have m1: "\<not> ?r \<Longrightarrow> s1 = s"
    using c by (simp add: clear_if_def)
  have ls: "m_list s' = m_list s3" using u s' by (simp add: update_type_list)
  have vol: "m_list s' = m_list s1" if "m_mode (add_select_mode s1 ?v i) = Volume"
  proof -
    have "s3 = add_select_mode s1 ?v i"
      using sw assms(5) that by (simp add: add_switch_def)
    then show ?thesis using ls by (simp add: add_select_mode_def)
  qed
  have a: "is_modifier ?v \<longrightarrow> m_list s' = (if ?r then [] else m_list s)"
    using vol l1 by (simp add: add_select_mode_def)
  have b: "\<not> is_modifier ?v \<and> m_mode s = Volume \<and> i \<in> set (m_list s) \<and> \<not> ?r
             \<longrightarrow> m_list s' = m_list s"
    using vol l1 m1 by (auto simp: add_select_mode_def contains_volume_def)
  have d: "m_mode s' = Instance \<and> i \<in> set (m_list s')
          \<and> set (m_list s') = (if ?r then {} else set (m_list s))
               \<union> {k. k < usize (length vs)
                      \<and> u32 (object_idx (vs ! k)) = u32 (object_idx ?v)
                      \<and> u32 (instance_idx (vs ! k)) = u32 (instance_idx ?v)}"
    if n: "\<not> is_modifier ?v" and q: "?r \<or> i \<notin> set (m_list s)"
  proof -
    let ?s2 = "s1\<lparr>m_mode := Instance\<rparr>"
    have "i \<notin> set (m_list s1)" using l1 q by auto
    then have e2: "add_select_mode s1 ?v i = ?s2"
      using n by (simp add: add_select_mode_def contains_volume_def)
    then have p: "priv_add_instance ?s2 (u32 (object_idx ?v)) (u32 (instance_idx ?v)) = Some s3"
      using sw by (simp add: add_switch_def)
    have "same_binding s s1" using c by (rule clear_if_binding)
    from same_binding_volumes [OF this assms(3)] obtain vs1 where
      v1: "m_volumes s1 = Some vs1" "length vs1 = length vs"
      and id1: "\<forall>k < length vs. ident (vs1 ! k) = ident (vs ! k)" by auto
    have v2: "m_volumes ?s2 = Some vs1" using v1(1) by simp
    have f: "\<And>k. k < usize (length vs) \<Longrightarrow>
               object_idx (vs1 ! k) = object_idx (vs ! k) \<and> instance_idx (vs1 ! k) = instance_idx (vs ! k)"
      using id1 by (auto simp: ident_def dest!: usize_lessD)
    have "set (m_list s3) = set (m_list ?s2)
           \<union> {k. k < usize (length vs1) \<and> u32 (object_idx (vs1 ! k)) = u32 (object_idx ?v)
                  \<and> u32 (instance_idx (vs1 ! k)) = u32 (instance_idx ?v)}"
      by (rule add_instance_branch(1) [OF p v2])
    also have "\<dots> = (if ?r then {} else set (m_list s))
           \<union> {k. k < usize (length vs) \<and> u32 (object_idx (vs ! k)) = u32 (object_idx ?v)
                  \<and> u32 (instance_idx (vs ! k)) = u32 (instance_idx ?v)}"
      using l1 v1(2) f by auto
    finally have st: "set (m_list s') = (if ?r then {} else set (m_list s))
           \<union> {k. k < usize (length vs) \<and> u32 (object_idx (vs ! k)) = u32 (object_idx ?v)
                  \<and> u32 (instance_idx (vs ! k)) = u32 (instance_idx ?v)}"
      using ls by simp
    have "m_mode s3 = Instance" using add_instance_branch(2) [OF p v2] by simp
    then have "m_mode s' = Instance" using u s' by (simp add: update_type_mode)
    moreover have "i \<in> set (m_list s')" using st assms(4) by simp
    ultimately show ?thesis using st by simp
  qed
  show ?thesis using False a b d by blast
qed

lemmas sla_defs = scene_sla_def bind_selection_def set_model_def set_volumes_def
  update_valid_def new_selection_def vols_sla_def model_sla_def mk_volume_def

lemmas eval_sla_defs = add_def Let_def add_needs_reset_def sel_is_wipe_tower_def sel_is_modifier_def
  clear_if_def clear_def update_type_def classify_def add_select_mode_def contains_volume_def
  add_switch_def priv_add_instance_def all_indices_def priv_add_volume_def set_insert_def
  u32_def usize_def umul_def uadd_def get_object_idx_def get_instance_idx_def vector_at_def
  objects_at_def upt_rec is_empty_def add_volume_def remove_volume_def priv_remove_volume_def
  set_erase_def

lemma sla_single_volume_eval:
  "add_volume scene_sla 0 0 0 False = Some sla_single_volume"
  "m_mode sla_single_volume = Volume" "m_list sla_single_volume = [0]"
  "m_valid sla_single_volume" "m_volumes sla_single_volume \<noteq> None"
  "m_type sla_single_volume = SingleVolume"
  "map ident (the (m_volumes sla_single_volume)) = map ident vols_sla"
  by (simp_all add: sla_single_volume_def sla_defs eval_sla_defs ident_def)

theorem add_inserts_support_counterexample:
  "m_mode sla_single_volume = Volume \<and> m_list sla_single_volume = [0]
   \<and> volume_idx (vols_sla ! 2) < 0
   \<and> map_option m_list (add sla_single_volume 2 False) = Some [0, 1, 2]"
  by (simp add: sla_single_volume_def sla_defs eval_sla_defs)

lemma sla_with_support_eval:
  "m_valid sla_with_support" "m_mode sla_with_support = Volume"
  "m_list sla_with_support = [0, 2]" "m_type sla_with_support = MultipleVolume"
  "map ident (the (m_volumes sla_with_support)) = map ident vols_sla"
  "m_volumes sla_with_support \<noteq> None"
  by (simp_all add: sla_with_support_def sla_defs eval_sla_defs ident_def)

lemmas negmod_defs = scene_negmod_def scene_mod_def bind_selection_def set_model_def
  set_volumes_def update_valid_def new_selection_def vols_negmod_def vols_mod_def model_sla_def
  mk_volume_def

lemma map_eq_nth:
  assumes "map f xs = map f ys" "k < length ys"
  shows "f (xs ! k) = f (ys ! k)"
proof -
  have "length xs = length ys" using assms(1) by (rule map_eq_imp_length_eq)
  then have "map f xs ! k = f (xs ! k)" "map f ys ! k = f (ys ! k)" using assms(2) by simp_all
  then show ?thesis using assms(1) by simp
qed

lemma sla_support_ident:
  assumes "map ident vs = map ident vols_sla"
  shows "length vs = 3" "volume_idx (vs ! 2) < 0" "\<not> is_modifier (vs ! 2)"
    "\<not> is_wipe_tower (vs ! 2)" "2 < usize (length vs)"
    "{k. k < usize (length vs) \<and> u32 (object_idx (vs ! k)) = u32 (object_idx (vs ! 2))
          \<and> u32 (instance_idx (vs ! k)) = u32 (instance_idx (vs ! 2))} = {0, 1, 2}"
proof -
  show len: "length vs = 3" using map_eq_imp_length_eq [OF assms] by (simp add: vols_sla_def)
  have i: "ident (vs ! k) = ident (vols_sla ! k)" if "k < 3" for k
    by (rule map_eq_nth [OF assms]) (use that in \<open>simp add: vols_sla_def\<close>)
  from i [of 2] show "volume_idx (vs ! 2) < 0" "\<not> is_modifier (vs ! 2)" "\<not> is_wipe_tower (vs ! 2)"
    by (simp_all add: ident_def vols_sla_def mk_volume_def)
  show "2 < usize (length vs)" using len by (simp add: usize_def)
  have "\<And>k. k < 3 \<Longrightarrow> object_idx (vs ! k) = 0 \<and> instance_idx (vs ! k) = 0"
    using i by (auto simp: ident_def vols_sla_def mk_volume_def less_Suc_eq numeral_3_eq_3)
  then show "{k. k < usize (length vs) \<and> u32 (object_idx (vs ! k)) = u32 (object_idx (vs ! 2))
          \<and> u32 (instance_idx (vs ! k)) = u32 (instance_idx (vs ! 2))} = {0, 1, 2}"
    using len by (auto simp: usize_def)
qed

theorem add_volume_mode_negative_part_witness:
  "m_valid scene_negmod \<and> is_modifier (vols_negmod ! 1) \<and> volume_idx (vols_negmod ! 1) < 0
   \<and> map_option m_list (add scene_negmod 1 False) = Some []
   \<and> volume_idx (vols_mod ! 1) = 1
   \<and> map_option m_list (add scene_mod 1 False) = Some [1]
   \<and> m_mode sla_with_support = Volume \<and> m_list sla_with_support = [0, 2]
   \<and> (\<exists>s'. add sla_with_support 2 False = Some s' \<and> m_list s' = [0, 2])
   \<and> m_mode sla_single_volume = Volume \<and> m_list sla_single_volume = [0]
   \<and> (\<exists>s'. add sla_single_volume 2 False = Some s' \<and> m_mode s' = Instance
          \<and> set (m_list s') = {0, 1, 2})"
proof -
  have n: "m_valid scene_negmod" "m_volumes scene_negmod = Some vols_negmod"
    "1 < usize (length vols_negmod)" "volume_idx (vols_negmod ! 1) < 0"
    "is_modifier (vols_negmod ! 1)" "\<not> is_wipe_tower (vols_negmod ! 1)"
    "add_needs_reset scene_negmod (vols_negmod ! 1) False"
    by (simp_all add: negmod_defs usize_def add_needs_reset_def sel_is_modifier_def)
  have "add scene_negmod 1 False \<noteq> None"
    by (simp add: negmod_defs eval_sla_defs)
  then obtain s1 where a1: "add scene_negmod 1 False = Some s1" by blast
  have r1: "m_list s1 = []"
    using add_volume_mode_negative_part [OF a1 n(1,2,3,4)] n(5,6,7) by simp
  have r0: "volume_idx (vols_mod ! 1) = 1" "map_option m_list (add scene_mod 1 False) = Some [1]"
    by (simp_all add: negmod_defs eval_sla_defs)
  let ?s = sla_with_support
  obtain vs where vs: "m_volumes ?s = Some vs" using sla_with_support_eval(6) by blast
  then have i: "map ident vs = map ident vols_sla" using sla_with_support_eval(5) by simp
  note v = sla_support_ident [OF i]
  have q: "\<not> add_needs_reset ?s (vs ! 2) False"
    using v sla_with_support_eval(4)
    by (simp add: add_needs_reset_def sel_is_wipe_tower_def sel_is_modifier_def)
  have "add ?s 2 False \<noteq> None"
    by (simp add: sla_with_support_def sla_defs eval_sla_defs)
  then obtain s2 where a2: "add ?s 2 False = Some s2" by blast
  have r2: "m_list s2 = [0, 2]"
    using add_volume_mode_negative_part [OF a2 sla_with_support_eval(1) vs v(5) v(2)]
      v(3,4) q sla_with_support_eval(2,3) by simp
  let ?t = sla_single_volume
  obtain ws where ws: "m_volumes ?t = Some ws" using sla_single_volume_eval(5) by blast
  then have j: "map ident ws = map ident vols_sla" using sla_single_volume_eval(7) by simp
  note w = sla_support_ident [OF j]
  have p: "\<not> add_needs_reset ?t (ws ! 2) False"
    using w sla_single_volume_eval(6)
    by (simp add: add_needs_reset_def sel_is_wipe_tower_def sel_is_modifier_def)
  have "add ?t 2 False \<noteq> None"
    by (simp add: sla_single_volume_def sla_defs eval_sla_defs)
  then obtain s3 where a3: "add ?t 2 False = Some s3" by blast
  have r3: "m_mode s3 = Instance \<and> set (m_list s3) = {0, 1, 2}"
    using add_volume_mode_negative_part [OF a3 sla_single_volume_eval(4) ws w(5) w(2)]
      w(3,4,6) p sla_single_volume_eval(3) by auto
  show ?thesis
    using n(1,4,5) a1 r1 r0 a2 r2 a3 r3 sla_with_support_eval(2,3) sla_single_volume_eval(2,3)
    by simp
qed

subsection \<open>Mirror and the synchronisation of siblings\<close>












lemma part_frame_flip [simp]: "part_frame (flip_volume_mirror axis v) = part_frame v"
  by (simp add: part_frame_def flip_volume_mirror_def)





lemma copy_part_key [simp]:
  "object_idx (copy_part a v) = object_idx v" "volume_idx (copy_part a v) = volume_idx v"
  "instance_mirror (copy_part a v) = instance_mirror v"
  by (simp_all add: copy_part_def)




lemma copy_instance_idem [simp]:
  "copy_instance_scaling_mirror a (copy_instance_scaling_mirror b v) = copy_instance_scaling_mirror a v"
  "object_idx (copy_instance_scaling_mirror a v) = object_idx v"
  "instance_idx (copy_instance_scaling_mirror a v) = instance_idx v"
  by (simp_all add: copy_instance_scaling_mirror_def)





lemma flip_volume_mirror_key [simp]:
  "object_idx (flip_volume_mirror axis v) = object_idx v"
  "volume_idx (flip_volume_mirror axis v) = volume_idx v"
  "instance_mirror (flip_volume_mirror axis v) = instance_mirror v"
  by (simp_all add: flip_volume_mirror_def)

lemma copy_part_flip [simp]:
  "copy_part a (flip_volume_mirror axis v) = copy_part a v"
  by (simp add: copy_part_def flip_volume_mirror_def)











subsection \<open>The guards of the public operations\<close>

text \<open>
  C4 (amended). Every public mutator (\<open>add\<close>, \<open>remove\<close>, \<open>add_object\<close>, \<open>remove_object\<close>,
  \<open>add_instance\<close>, \<open>remove_instance\<close>, \<open>add_volume\<close>, \<open>remove_volume\<close>, \<open>add_all\<close>,
  \<open>clear\<close>), \<open>start_dragging\<close>, every transform operation (\<open>translate\<close>, \<open>rotate\<close>,
  \<open>flattening_rotate\<close>, \<open>scale\<close>, \<open>mirror\<close>, and the \<open>translate\<close> of an object or of an
  instance) and \<open>erase\<close> is a no-op whenever the selection is not bound to both a volume
  list and a model: it returns the state it was given, volume list included, and \<open>erase\<close>
  requests no deletion. \<open>add\<close> and \<open>remove\<close> are also no-ops when the volume index is out
  of range of the volume list. \<open>volumes_changed\<close> is not defensive: it asserts that the
  selection is valid, so on an unbound selection a build with assertions aborts.
\<close>

theorem unbound_selection_noop:
  "(bound_inv s \<and> (m_volumes s = None \<or> m_model s = None) \<longrightarrow>
      add s i e = Some s \<and> remove s i = Some s
      \<and> add_object s oidx e = Some s \<and> remove_object s oidx = Some s
      \<and> add_instance s oidx iidx e = Some s \<and> remove_instance s oidx iidx = Some s
      \<and> add_volume s oidx pidx inst e = Some s \<and> remove_volume s oidx pidx = Some s
      \<and> add_all s = Some s \<and> clear s = Some s
      \<and> start_dragging env s = Some s
      \<and> translate env s d l = Some s \<and> rotate_sel env s r t = Some s
      \<and> flattening_rotate env s n = Some s \<and> scale env s sc l = Some s
      \<and> mirror env s axis = Some s
      \<and> translate_object s oidx d = Some s \<and> translate_instance s oidx iidx d = Some s
      \<and> erase s = Some NoRequest
      \<and> (\<not> NDEBUG env \<longrightarrow> volumes_changed env s mp = None))
   \<and> (m_volumes s = Some vs \<and> (length vs \<le> i \<or> usize (length vs) \<le> i) \<longrightarrow>
        add s i e = Some s \<and> remove s i = Some s)"
proof (intro conjI impI)
  assume "bound_inv s \<and> (m_volumes s = None \<or> m_model s = None)"
  then have v: "\<not> m_valid s" by (auto simp: bound_inv_def)
  show "add s i e = Some s" "remove s i = Some s" using v by (simp_all add: add_def remove_def)
  show "add_object s oidx e = Some s" "remove_object s oidx = Some s"
    using v by (simp_all add: add_object_def remove_object_def)
  show "add_instance s oidx iidx e = Some s" "remove_instance s oidx iidx = Some s"
    using v by (simp_all add: add_instance_def remove_instance_def)
  show "add_volume s oidx pidx inst e = Some s" "remove_volume s oidx pidx = Some s"
    using v by (simp_all add: add_volume_def remove_volume_def)
  show "add_all s = Some s" "clear s = Some s" using v by (simp_all add: add_all_def clear_def)
  show "start_dragging env s = Some s" using v by (simp add: start_dragging_def)
  show "translate env s d l = Some s" "rotate_sel env s r t = Some s"
    "flattening_rotate env s n = Some s" "scale env s sc l = Some s" "mirror env s axis = Some s"
    using v by (simp_all add: translate_def rotate_sel_def flattening_rotate_def scale_def mirror_def)
  show "translate_object s oidx d = Some s" "translate_instance s oidx iidx d = Some s"
    using v by (simp_all add: translate_object_def translate_instance_def)
  show "erase s = Some NoRequest" using v by (simp add: erase_def)
  show "volumes_changed env s mp = None" if "\<not> NDEBUG env"
    using v that by (simp add: volumes_changed_def)
next
  assume a: "m_volumes s = Some vs \<and> (length vs \<le> i \<or> usize (length vs) \<le> i)"
  then have "usize (length vs) \<le> i" using usize_le [of "length vs"] by auto
  then show "add s i e = Some s" "remove s i = Some s"
    using a by (simp_all add: add_def remove_def)
qed

theorem volumes_changed_unbound_counterexample:
  "bound_inv volumes_only \<and> m_model volumes_only = None \<and> m_type volumes_only = Empty
   \<and> volumes_changed debug_env volumes_only [] = None
   \<and> map_option m_type (volumes_changed release_env volumes_only []) = Some Invalid"
  by (simp add: volumes_only_def set_volumes_def update_valid_def new_selection_def bound_inv_def
      volumes_changed_def debug_env_def release_env_def add_model_instances_def update_type_def
      classify_def)

theorem unbound_selection_noop_witness:
  "bound_inv new_selection \<and> m_volumes new_selection = None
   \<and> add new_selection 0 False = Some new_selection
   \<and> clear new_selection = Some new_selection
   \<and> mirror debug_env new_selection X = Some new_selection
   \<and> erase new_selection = Some NoRequest
   \<and> \<not> NDEBUG debug_env \<and> volumes_changed debug_env new_selection [] = None
   \<and> m_volumes scene3 = Some vols3 \<and> length vols3 \<le> 3
   \<and> add scene3 3 False = Some scene3 \<and> remove scene3 3 = Some scene3"
  using unbound_selection_noop [where s = new_selection and env = debug_env and i = 0
      and e = False and axis = X and mp = "[]"]
    unbound_selection_noop [where s = scene3 and vs = vols3 and i = 3 and e = False]
  by (simp add: bound_inv_def new_selection_def debug_env_def release_env_def scene_defs)

end
